theory Spec2Isabelle
  imports Main
begin

section \<open>Python values\<close>

text \<open>
  The modules are Python plugins of a configuration-management host. Their arguments
  and the results of the host's functions are dynamically typed, so the model has one
  type of Python values, covering the data that YAML/JSON documents carry: \<open>None\<close>,
  booleans, integers, strings, lists, \<open>dict\<close> and \<open>collections.OrderedDict\<close>.
  Dictionary keys are hashable scalars. A dictionary is an association list in
  insertion order. A string is a list of characters; the texts of the modules are ASCII.
  A call into the host is taken to return: an exception raised inside the host is not
  an outcome of the model.
\<close>

datatype pykey = KNone | KBool bool | KInt int | KStr string

datatype pyval =
    PNone
  | PBool bool
  | PInt int
  | PStr string
  | PList "pyval list"
  | PDict "(pykey \<times> pyval) list"
  | PODict "(pykey \<times> pyval) list"

datatype py_error =
    KeyError
  | TypeError
  | IndexError
  | CommandExecutionError string
  | SaltInvocationError string

type_synonym kwargs = "(string \<times> pyval) list"

text \<open>Python's \<open>==\<close> on keys: \<open>True == 1\<close> and \<open>False == 0\<close>.\<close>

fun key_eq :: "pykey \<Rightarrow> pykey \<Rightarrow> bool" where
  "key_eq KNone KNone = True"
| "key_eq (KBool a) (KBool b) = (a = b)"
| "key_eq (KBool a) (KInt j) = ((if a then 1 else 0) = j)"
| "key_eq (KInt i) (KBool b) = (i = (if b then 1 else 0))"
| "key_eq (KInt i) (KInt j) = (i = j)"
| "key_eq (KStr s) (KStr t) = (s = t)"
| "key_eq _ _ = False"

fun dict_get :: "(pykey \<times> 'v) list \<Rightarrow> pykey \<Rightarrow> 'v option" where
  "dict_get [] k = None"
| "dict_get ((k', v) # d) k = (if key_eq k' k then Some v else dict_get d k)"

text \<open>
  Python's \<open>==\<close> on values. Two dicts are equal when they have the same size and
  every key of the first is a key of the second with an equal value; two OrderedDicts
  must also list their keys in the same order.
\<close>

fun py_eq :: "pyval \<Rightarrow> pyval \<Rightarrow> bool" where
  "py_eq PNone PNone = True"
| "py_eq (PBool a) (PBool b) = (a = b)"
| "py_eq (PBool a) (PInt j) = ((if a then 1 else 0) = j)"
| "py_eq (PInt i) (PBool b) = (i = (if b then 1 else 0))"
| "py_eq (PInt i) (PInt j) = (i = j)"
| "py_eq (PStr s) (PStr t) = (s = t)"
| "py_eq (PList xs) (PList ys) = list_all2 py_eq xs ys"
| "py_eq (PDict d) (PDict e) = (length d = length e \<and>
      list_all (\<lambda>(k, v). case dict_get e k of None \<Rightarrow> False | Some v' \<Rightarrow> py_eq v v') d)"
| "py_eq (PDict d) (PODict e) = (length d = length e \<and>
      list_all (\<lambda>(k, v). case dict_get e k of None \<Rightarrow> False | Some v' \<Rightarrow> py_eq v v') d)"
| "py_eq (PODict d) (PDict e) = (length d = length e \<and>
      list_all (\<lambda>(k, v). case dict_get e k of None \<Rightarrow> False | Some v' \<Rightarrow> py_eq v v') d)"
| "py_eq (PODict d) (PODict e) = (length d = length e \<and>
      list_all (\<lambda>(k, v). case dict_get e k of None \<Rightarrow> False | Some v' \<Rightarrow> py_eq v v') d \<and>
      list_all2 key_eq (map fst d) (map fst e))"
| "py_eq _ _ = False"

text \<open>Truth value of a value in a boolean context (\<open>if x\<close>, \<open>not x\<close>, \<open>bool(x)\<close>).\<close>

fun truthy :: "pyval \<Rightarrow> bool" where
  "truthy PNone = False"
| "truthy (PBool b) = b"
| "truthy (PInt i) = (i \<noteq> 0)"
| "truthy (PStr s) = (s \<noteq> [])"
| "truthy (PList xs) = (xs \<noteq> [])"
| "truthy (PDict d) = (d \<noteq> [])"
| "truthy (PODict d) = (d \<noteq> [])"

text \<open>A function object is always true in a boolean context.\<close>

definition callable_truthy :: "'f \<Rightarrow> bool" where
  "callable_truthy f = True"

subsection \<open>Formatting\<close>

definition digit_char :: "nat \<Rightarrow> char" where
  "digit_char n = ''0123456789'' ! n"

fun show_nat :: "nat \<Rightarrow> string" where
  "show_nat n = (if n < 10 then [digit_char n] else show_nat (n div 10) @ [digit_char (n mod 10)])"

declare show_nat.simps [simp del]

definition show_int :: "int \<Rightarrow> string" where
  "show_int i = (if i < 0 then ''-'' @ show_nat (nat (- i)) else show_nat (nat i))"

text \<open>
  \<open>str(v)\<close>, which is what \<open>format\<close> and an f-string apply to a value without a
  format specification. The text of a container is its \<open>repr\<close>, whose exact form
  belongs to the interpreter; it is the parameter \<open>R\<close>.
\<close>

fun py_str :: "(pyval \<Rightarrow> string) \<Rightarrow> pyval \<Rightarrow> string" where
  "py_str R PNone = ''None''"
| "py_str R (PBool b) = (if b then ''True'' else ''False'')"
| "py_str R (PInt i) = show_int i"
| "py_str R (PStr s) = s"
| "py_str R v = R v"

fun key_val :: "pykey \<Rightarrow> pyval" where
  "key_val KNone = PNone"
| "key_val (KBool b) = PBool b"
| "key_val (KInt i) = PInt i"
| "key_val (KStr s) = PStr s"

subsection \<open>Subscription\<close>

text \<open>Only hashable values can be looked up in a dictionary.\<close>

fun as_key :: "pyval \<Rightarrow> pykey option" where
  "as_key PNone = Some KNone"
| "as_key (PBool b) = Some (KBool b)"
| "as_key (PInt i) = Some (KInt i)"
| "as_key (PStr s) = Some (KStr s)"
| "as_key _ = None"

text \<open>\<open>xs[i]\<close> on a sequence: an index below zero is taken from the end.\<close>

definition seq_index :: "'a list \<Rightarrow> int \<Rightarrow> py_error + 'a" where
  "seq_index xs i =
     (if 0 \<le> i \<and> i < int (length xs) then Inr (xs ! nat i)
      else if i < 0 \<and> - int (length xs) \<le> i then Inr (xs ! nat (int (length xs) + i))
      else Inl IndexError)"

fun as_index :: "pyval \<Rightarrow> int option" where
  "as_index (PInt i) = Some i"
| "as_index (PBool b) = Some (if b then 1 else 0)"
| "as_index _ = None"

text \<open>\<open>obj[k]\<close>, with the exceptions of the interpreter as error values.\<close>

fun py_getitem :: "pyval \<Rightarrow> pyval \<Rightarrow> py_error + pyval" where
  "py_getitem (PDict d) k =
     (case as_key k of None \<Rightarrow> Inl TypeError
      | Some k' \<Rightarrow> (case dict_get d k' of None \<Rightarrow> Inl KeyError | Some v \<Rightarrow> Inr v))"
| "py_getitem (PODict d) k =
     (case as_key k of None \<Rightarrow> Inl TypeError
      | Some k' \<Rightarrow> (case dict_get d k' of None \<Rightarrow> Inl KeyError | Some v \<Rightarrow> Inr v))"
| "py_getitem (PList xs) k =
     (case as_index k of None \<Rightarrow> Inl TypeError | Some i \<Rightarrow> seq_index xs i)"
| "py_getitem (PStr s) k =
     (case as_index k of None \<Rightarrow> Inl TypeError
      | Some i \<Rightarrow> (case seq_index s i of Inl e \<Rightarrow> Inl e | Inr c \<Rightarrow> Inr (PStr [c])))"
| "py_getitem _ k = Inl TypeError"

text \<open>\<open>d[k] = v\<close> on a dictionary in insertion order.\<close>

fun dict_set :: "'k \<Rightarrow> 'v \<Rightarrow> ('k \<times> 'v) list \<Rightarrow> ('k \<times> 'v) list" where
  "dict_set k v [] = [(k, v)]"
| "dict_set k v ((k', v') # d) = (if k' = k then (k, v) # d else (k', v') # dict_set k v d)"

section \<open>The host\<close>

text \<open>
  Every call a module makes into the host framework (\<open>__salt__\<close>, \<open>__proxy__\<close>, the
  operating system, the webhook client) is recorded, in order. The state of the outside
  world is a value of an arbitrary type \<open>'w\<close>: a function that reads takes the world,
  a function that acts returns the next one.
\<close>

datatype call =
    DbExists string kwargs
  | DbCreate string pyval "pyval list" kwargs
  | DbRemove string kwargs
  | DiskDump string
  | DiskTune string kwargs
  | DiskFormat string string pyval kwargs
  | CmdRun "string list"
  | PathExists string
  | Which string
  | Sleep nat
  | SetConfigModify string string bool
  | GetConfigResolverClass string bool
  | ConfigGet string
  | MattermostQuery pyval pyval string

text \<open>The calls that change the managed system.\<close>

fun is_apply :: "call \<Rightarrow> bool" where
  "is_apply (DbCreate n c os k) = True"
| "is_apply (DbRemove n k) = True"
| "is_apply (DiskTune n k) = True"
| "is_apply (DiskFormat n f fo k) = True"
| "is_apply _ = False"

text \<open>The calls that leave the minion: a proxy call or an HTTP query.\<close>

fun is_external :: "call \<Rightarrow> bool" where
  "is_external (SetConfigModify dn c b) = True"
| "is_external (GetConfigResolverClass c b) = True"
| "is_external (MattermostQuery a h d) = True"
| "is_external _ = False"

text \<open>The structured result of a state function.\<close>

record ret =
  ret_name :: string
  ret_changes :: "(string \<times> string) list"
  ret_result :: "bool option"
  ret_comment :: string

section \<open>salt/states/mssql\_database.py\<close>

record 'w mssql_host =
  mssql_db_exists :: "'w \<Rightarrow> string \<Rightarrow> kwargs \<Rightarrow> pyval"
  mssql_db_create :: "'w \<Rightarrow> string \<Rightarrow> pyval \<Rightarrow> pyval list \<Rightarrow> kwargs \<Rightarrow> pyval \<times> 'w"
  mssql_db_remove :: "'w \<Rightarrow> string \<Rightarrow> kwargs \<Rightarrow> pyval \<times> 'w"

text \<open>\<open>f"{k}={v}"\<close>\<close>

definition option_item :: "(pyval \<Rightarrow> string) \<Rightarrow> pykey \<times> pyval \<Rightarrow> pyval" where
  "option_item R kv = PStr (py_str R (key_val (fst kv)) @ ''='' @ py_str R (snd kv))"

text \<open>
  \<open>_normalize_options\<close>. The tests of the source are on the exact type of the argument
  and of its first element, which are the constructors here; the equations are read in
  order, as the source's \<open>if\<close>s are.
\<close>

fun normalize_options :: "(pyval \<Rightarrow> string) \<Rightarrow> pyval \<Rightarrow> pyval list" where
  "normalize_options R (PDict d) = map (option_item R) d"
| "normalize_options R (PODict d) = map (option_item R) d"
| "normalize_options R (PList []) = []"
| "normalize_options R (PList (PStr s # xs)) = PStr s # xs"
| "normalize_options R (PList (PDict d # xs)) =
     concat (map (normalize_options R) (PDict d # xs))"
| "normalize_options R (PList (PODict d # xs)) =
     concat (map (normalize_options R) (PODict d # xs))"
| "normalize_options R _ = []"

definition present ::
  "'w mssql_host \<Rightarrow> (pyval \<Rightarrow> string) \<Rightarrow> bool \<Rightarrow> string \<Rightarrow> pyval \<Rightarrow> pyval \<Rightarrow> kwargs \<Rightarrow> 'w
     \<Rightarrow> ret \<times> 'w \<times> call list" where
  "present H R test name containment options kwargs w =
    (let ret = \<lparr>ret_name = name, ret_changes = [], ret_result = Some True, ret_comment = ''''\<rparr>
     in if truthy (mssql_db_exists H w name kwargs) then
          (ret\<lparr>ret_comment := ''Database '' @ name
                  @ '' is already present (Not going to try to set its options)''\<rparr>,
           w, [DbExists name kwargs])
        else if test then
          (ret\<lparr>ret_result := None,
               ret_comment := ''Database '' @ name @ '' is set to be added''\<rparr>,
           w, [DbExists name kwargs])
        else
          (let opts = normalize_options R options;
               (db_created, w') = mssql_db_create H w name containment opts kwargs;
               tr = [DbExists name kwargs, DbCreate name containment opts kwargs]
           in if db_created \<noteq> PBool True then
                (ret\<lparr>ret_result := Some False,
                     ret_comment := ret_comment ret @ ''Database '' @ name
                        @ '' failed to be created: '' @ py_str R db_created\<rparr>,
                 w', tr)
              else
                (ret\<lparr>ret_comment := ret_comment ret @ ''Database '' @ name @ '' has been added'',
                     ret_changes := dict_set name ''Present'' (ret_changes ret)\<rparr>,
                 w', tr)))"

text \<open>\<open>absent\<close> asks \<open>mssql.db_exists\<close> without the keyword arguments.\<close>

definition absent ::
  "'w mssql_host \<Rightarrow> bool \<Rightarrow> string \<Rightarrow> kwargs \<Rightarrow> 'w \<Rightarrow> ret \<times> 'w \<times> call list" where
  "absent H test name kwargs w =
    (let ret = \<lparr>ret_name = name, ret_changes = [], ret_result = Some True, ret_comment = ''''\<rparr>
     in if \<not> truthy (mssql_db_exists H w name []) then
          (ret\<lparr>ret_comment := ''Database '' @ name @ '' is not present''\<rparr>,
           w, [DbExists name []])
        else if test then
          (ret\<lparr>ret_result := None,
               ret_comment := ''Database '' @ name @ '' is set to be removed''\<rparr>,
           w, [DbExists name []])
        else
          (let (removed, w') = mssql_db_remove H w name kwargs;
               tr = [DbExists name [], DbRemove name kwargs]
           in if truthy removed then
                (ret\<lparr>ret_comment := ''Database '' @ name @ '' has been removed'',
                     ret_changes := dict_set name ''Absent'' (ret_changes ret)\<rparr>,
                 w', tr)
              else
                (ret\<lparr>ret_result := Some False,
                     ret_comment := ''Database '' @ name @ '' failed to be removed''\<rparr>,
                 w', tr)))"

section \<open>salt/states/blockdev.py\<close>

record 'w blockdev_host =
  file_is_blkdev :: "'w \<Rightarrow> string \<Rightarrow> pyval"
  disk_dump :: "'w \<Rightarrow> string \<Rightarrow> pyval"
  disk_tune :: "'w \<Rightarrow> string \<Rightarrow> kwargs \<Rightarrow> pyval \<times> 'w"
  disk_format :: "'w \<Rightarrow> string \<Rightarrow> string \<Rightarrow> pyval \<Rightarrow> kwargs \<Rightarrow> 'w"
  cmd_run :: "'w \<Rightarrow> string list \<Rightarrow> string"
  os_path_exists :: "'w \<Rightarrow> string \<Rightarrow> bool"
  path_which :: "'w \<Rightarrow> string \<Rightarrow> pyval"
  time_sleep :: "'w \<Rightarrow> nat \<Rightarrow> 'w"

definition kwarg_map :: "(string \<times> string) list" where
  "kwarg_map =
     [(''read-ahead'', ''getra''),
      (''filesystem-read-ahead'', ''getfra''),
      (''read-only'', ''getro''),
      (''read-write'', ''getro'')]"

fun isinstance_bool :: "pyval \<Rightarrow> bool" where
  "isinstance_bool (PBool b) = True"
| "isinstance_bool _ = False"

text \<open>
  The body of \<open>for key in kwargs\<close> for one key, \<open>val\<close> being \<open>kwargs[key]\<close>:
  the new changeset, or the exception of a failed subscription.
\<close>

definition tuned_step ::
  "(pyval \<Rightarrow> string) \<Rightarrow> pyval \<Rightarrow> pyval \<Rightarrow> string \<Rightarrow> pyval
     \<Rightarrow> (string \<times> string) list \<Rightarrow> py_error + (string \<times> string) list" where
  "tuned_step R current changes key val changeset =
    (case map_of kwarg_map key of
       None \<Rightarrow> Inr changeset
     | Some switch \<Rightarrow>
        (case py_getitem current (PStr switch) of
           Inl e \<Rightarrow> Inl e
         | Inr c \<Rightarrow>
            (case py_getitem changes (PStr switch) of
               Inl e \<Rightarrow> Inl e
             | Inr n \<Rightarrow>
                if \<not> py_eq c n then
                  (let old = (if isinstance_bool val then PBool (py_eq c (PStr ''1'')) else c);
                       new = (if isinstance_bool val then PBool (py_eq n (PStr ''1'')) else n);
                       old' = (if key = ''read-write'' then PBool (\<not> truthy old) else old);
                       new' = (if key = ''read-write'' then PBool (\<not> truthy new) else new)
                   in Inr (dict_set key
                        (''Changed from '' @ py_str R old' @ '' to '' @ py_str R new') changeset))
                else Inr changeset)))"

text \<open>The loop over the keyword arguments, in the order of the dictionary.\<close>

fun tuned_loop ::
  "(pyval \<Rightarrow> string) \<Rightarrow> pyval \<Rightarrow> pyval \<Rightarrow> kwargs
     \<Rightarrow> (string \<times> string) list \<Rightarrow> py_error + (string \<times> string) list" where
  "tuned_loop R current changes [] changeset = Inr changeset"
| "tuned_loop R current changes ((key, val) # rest) changeset =
    (case tuned_step R current changes key val changeset of
       Inl e \<Rightarrow> Inl e
     | Inr changeset' \<Rightarrow> tuned_loop R current changes rest changeset')"

text \<open>
  \<open>tuned\<close>. Its first test negates the function object \<open>__salt__["file.is_blkdev"]\<close>,
  not the result of a call.
\<close>

definition tuned ::
  "'w blockdev_host \<Rightarrow> (pyval \<Rightarrow> string) \<Rightarrow> bool \<Rightarrow> string \<Rightarrow> kwargs \<Rightarrow> 'w
     \<Rightarrow> (py_error + ret) \<times> 'w \<times> call list" where
  "tuned H R test name kwargs w =
    (let ret = \<lparr>ret_name = name, ret_changes = [], ret_result = Some True, ret_comment = ''''\<rparr>
     in if \<not> callable_truthy (file_is_blkdev H) then
          (Inr (ret\<lparr>ret_comment := ''Changes to '' @ name
                  @ '' cannot be applied. Not a block device. ''\<rparr>), w, [])
        else if test then
          (Inr (ret\<lparr>ret_comment := ''Changes to '' @ name @ '' will be applied '',
                    ret_result := None\<rparr>), w, [])
        else
          (let current = disk_dump H w name;
               (changes, w') = disk_tune H w name kwargs;
               tr = [DiskDump name, DiskTune name kwargs]
           in case tuned_loop R current changes kwargs [] of
                Inl e \<Rightarrow> (Inl e, w', tr)
              | Inr changeset \<Rightarrow>
                  if truthy changes then
                    (if changeset \<noteq> [] then
                       (Inr (ret\<lparr>ret_comment := ''Block device '' @ name @ '' successfully modified '',
                                 ret_changes := changeset\<rparr>), w', tr)
                     else
                       (Inr (ret\<lparr>ret_comment := ''Block device '' @ name
                                   @ '' already in correct state''\<rparr>), w', tr))
                  else
                    (Inr (ret\<lparr>ret_comment := ''Failed to modify block device '' @ name,
                              ret_result := Some False\<rparr>), w', tr)))"

definition blkid_cmd :: "string \<Rightarrow> string list" where
  "blkid_cmd name = [''blkid'', ''-o'', ''value'', ''-s'', ''TYPE'', name]"

text \<open>\<open>_checkblk\<close>: the output of \<open>blkid\<close>, the empty string when there is none.\<close>

definition checkblk :: "'w blockdev_host \<Rightarrow> 'w \<Rightarrow> string \<Rightarrow> string" where
  "checkblk H w name = (let blk = cmd_run H w (blkid_cmd name) in if blk = [] then [] else blk)"

text \<open>
  The check repeated after \<open>disk.format\<close>, with the number of attempts that remain:
  the file system type found when it is the declared one, \<open>None\<close> when the loop ends
  or breaks without it. The world moves on while the function sleeps.
\<close>

fun format_poll ::
  "'w blockdev_host \<Rightarrow> string \<Rightarrow> string \<Rightarrow> nat \<Rightarrow> 'w \<Rightarrow> call list
     \<Rightarrow> string option \<times> 'w \<times> call list" where
  "format_poll H name fs_type 0 w tr = (None, w, tr)"
| "format_poll H name fs_type (Suc n) w tr =
    (let current_fs = checkblk H w name;
         tr' = tr @ [CmdRun (blkid_cmd name)]
     in if current_fs = fs_type then (Some current_fs, w, tr')
        else if current_fs = [] then
          format_poll H name fs_type n (time_sleep H w 3) (tr' @ [Sleep 3])
        else (None, w, tr'))"

definition formatted ::
  "'w blockdev_host \<Rightarrow> bool \<Rightarrow> string \<Rightarrow> string \<Rightarrow> pyval \<Rightarrow> kwargs \<Rightarrow> 'w
     \<Rightarrow> ret \<times> 'w \<times> call list" where
  "formatted H test name fs_type force kwargs w =
    (let ret = \<lparr>ret_name = name, ret_changes = [], ret_result = Some False,
                ret_comment = name @ '' already formatted with '' @ fs_type\<rparr>
     in if \<not> os_path_exists H w name then
          (ret\<lparr>ret_comment := name @ '' does not exist''\<rparr>, w, [PathExists name])
        else
          (let current_fs = checkblk H w name;
               tr = [PathExists name, CmdRun (blkid_cmd name)]
           in if current_fs = fs_type then (ret\<lparr>ret_result := Some True\<rparr>, w, tr)
              else if \<not> truthy (path_which H w (''mkfs.'' @ fs_type)) then
                (ret\<lparr>ret_comment := ''Invalid fs_type: '' @ fs_type, ret_result := Some False\<rparr>,
                 w, tr @ [Which (''mkfs.'' @ fs_type)])
              else if test then
                (ret\<lparr>ret_comment := ''Changes to '' @ name @ '' will be applied '',
                     ret_result := None\<rparr>,
                 w, tr @ [Which (''mkfs.'' @ fs_type)])
              else
                (let w1 = disk_format H w name fs_type force kwargs;
                     tr1 = tr @ [Which (''mkfs.'' @ fs_type), DiskFormat name fs_type force kwargs]
                 in case format_poll H name fs_type 10 w1 tr1 of
                      (Some fs, w2, tr2) \<Rightarrow>
                        (ret\<lparr>ret_comment := name @ '' has been formatted with '' @ fs_type,
                             ret_changes := [(''new'', fs_type), (''old'', fs)],
                             ret_result := Some True\<rparr>, w2, tr2)
                    | (None, w2, tr2) \<Rightarrow>
                        (ret\<lparr>ret_comment := ''Failed to format '' @ name,
                             ret_result := Some False\<rparr>, w2, tr2))))"

section \<open>salt/modules/cimc.py\<close>

record 'w cimc_proxy =
  set_config_modify :: "'w \<Rightarrow> string \<Rightarrow> string \<Rightarrow> bool \<Rightarrow> pyval \<times> 'w"
  get_config_resolver_class :: "'w \<Rightarrow> string \<Rightarrow> bool \<Rightarrow> pyval"

definition backup_image_dn :: string where
  "backup_image_dn = ''sys/rack-unit-1/mgmt/fw-boot-def/bootunit-combined''"

text \<open>The template of \<open>activate_backup_image\<close>, filled with \<open>r\<close>; it has a line break.\<close>

definition backup_image_config :: "string \<Rightarrow> string" where
  \<open>backup_image_config r =
     ''<firmwareBootUnit dn='sys/rack-unit-1/mgmt/fw-boot-def/bootunit-combined''
     @ [CHR 0x27, CHR 0x0A]
     @ ''    adminState='trigger' image='backup' resetOnActivate='' @ [CHR 0x27] @ r
     @ [CHR 0x27] @ '' />''\<close>

definition activate_backup_image ::
  "'w cimc_proxy \<Rightarrow> pyval \<Rightarrow> 'w \<Rightarrow> pyval \<times> 'w \<times> call list" where
  "activate_backup_image P reset w =
    (let dn = backup_image_dn;
         r = (if reset = PBool True then ''yes'' else ''no'');
         inconfig = backup_image_config r;
         (ret, w') = set_config_modify P w dn inconfig False
     in (ret, w', [SetConfigModify dn inconfig False]))"

definition create_user ::
  "'w cimc_proxy \<Rightarrow> (pyval \<Rightarrow> string) \<Rightarrow> pyval \<Rightarrow> pyval \<Rightarrow> pyval \<Rightarrow> pyval \<Rightarrow> 'w
     \<Rightarrow> (py_error + pyval) \<times> 'w \<times> call list" where
  \<open>create_user P R uid username password priv w =
    (if \<not> truthy uid then
       (Inl (CommandExecutionError ''The user ID must be specified.''), w, [])
     else if \<not> truthy username then
       (Inl (CommandExecutionError ''The username must be specified.''), w, [])
     else if \<not> truthy password then
       (Inl (CommandExecutionError ''The password must be specified.''), w, [])
     else if \<not> truthy priv then
       (Inl (CommandExecutionError ''The privilege level must be specified.''), w, [])
     else
       (let dn = ''sys/user-ext/user-'' @ py_str R uid;
            inconfig = ''<aaaUser id="'' @ py_str R uid @ ''" accountStatus="active" name="''
              @ py_str R username @ ''" priv="'' @ py_str R priv @ ''"'' @ [CHR 0x0A]
              @ ''    pwd="'' @ py_str R password @ ''"  dn="sys/user-ext/user-''
              @ py_str R uid @ ''"/>'';
            (ret, w') = set_config_modify P w dn inconfig False
        in (Inr ret, w', [SetConfigModify dn inconfig False])))\<close>

definition logging_options :: "string list" where
  "logging_options =
     [''emergency'', ''alert'', ''critical'', ''error'', ''warning'', ''notice'',
      ''informational'', ''debug'']"

text \<open>\<open>x in xs\<close> for a list of strings \<open>xs\<close>.\<close>

definition py_in :: "pyval \<Rightarrow> string list \<Rightarrow> bool" where
  "py_in x xs = list_ex (\<lambda>s. py_eq x (PStr s)) xs"

definition set_logging_levels ::
  "'w cimc_proxy \<Rightarrow> (pyval \<Rightarrow> string) \<Rightarrow> pyval \<Rightarrow> pyval \<Rightarrow> 'w
     \<Rightarrow> (py_error + pyval) \<times> 'w \<times> call list" where
  \<open>set_logging_levels P R remote local w =
    (if truthy remote \<and> \<not> py_in remote logging_options then
       (Inl (CommandExecutionError ''Remote Severity option is not valid.''), w, [])
     else
       (let query = (if truthy remote then '' remoteSeverity="'' @ py_str R remote @ ''"'' else '''')
        in if truthy local \<and> \<not> py_in local logging_options then
             (Inl (CommandExecutionError ''Local Severity option is not valid.''), w, [])
           else
             (let query' = query @
                    (if truthy local then '' localSeverity="'' @ py_str R local @ ''"'' else '''');
                  dn = ''sys/svc-ext/syslog'';
                  inconfig = ''<commSyslog dn="sys/svc-ext/syslog"'' @ query' @ '' ></commSyslog>'';
                  (ret, w') = set_config_modify P w dn inconfig False
              in (Inr ret, w', [SetConfigModify dn inconfig False]))))\<close>

text \<open>
  \<open>get_hostname\<close>: the call to the proxy is outside the \<open>try\<close>; the four subscriptions
  are inside, and any exception of theirs gives the fixed text.
\<close>

definition hostname_of :: "pyval \<Rightarrow> py_error + pyval" where
  "hostname_of ret =
    (case py_getitem ret (PStr ''outConfigs'') of
       Inl e \<Rightarrow> Inl e
     | Inr a \<Rightarrow>
        (case py_getitem a (PStr ''mgmtIf'') of
           Inl e \<Rightarrow> Inl e
         | Inr b \<Rightarrow>
            (case py_getitem b (PInt 0) of
               Inl e \<Rightarrow> Inl e
             | Inr c \<Rightarrow> py_getitem c (PStr ''hostname''))))"

definition get_hostname :: "'w cimc_proxy \<Rightarrow> 'w \<Rightarrow> (py_error + pyval) \<times> call list" where
  "get_hostname P w =
    (let ret = get_config_resolver_class P w ''mgmtIf'' True
     in (case hostname_of ret of
           Inr h \<Rightarrow> Inr h
         | Inl err \<Rightarrow> Inr (PStr ''Unable to retrieve hostname''),
         [GetConfigResolverClass ''mgmtIf'' True]))"

section \<open>salt/modules/mattermost.py\<close>

text \<open>
  \<open>salt.utils.json.dumps\<close> and \<open>salt.utils.mattermost.query\<close> are library functions
  of the host; the first is a pure function of the dictionary it serialises.
\<close>

record 'w mattermost_host =
  config_get :: "'w \<Rightarrow> string \<Rightarrow> pyval"
  json_dumps :: "kwargs \<Rightarrow> string"
  mattermost_query :: "'w \<Rightarrow> pyval \<Rightarrow> pyval \<Rightarrow> string \<Rightarrow> pyval \<times> 'w"

text \<open>
  \<open>config.get(a) or config.get(b)\<close>: the second key is asked only when the first
  gives a false value.
\<close>

definition config_either ::
  "'w mattermost_host \<Rightarrow> 'w \<Rightarrow> string \<Rightarrow> string \<Rightarrow> pyval \<times> call list" where
  "config_either M w a b =
    (let x = config_get M w a
     in if truthy x then (x, [ConfigGet a]) else (config_get M w b, [ConfigGet a, ConfigGet b]))"

definition get_hook :: "'w mattermost_host \<Rightarrow> 'w \<Rightarrow> (py_error + pyval) \<times> call list" where
  "get_hook M w =
    (let (hook, tr) = config_either M w ''mattermost.hook'' ''mattermost:hook''
     in if \<not> truthy hook then (Inl (SaltInvocationError ''No Mattermost Hook found''), tr)
        else (Inr hook, tr))"

definition get_api_url :: "'w mattermost_host \<Rightarrow> 'w \<Rightarrow> (py_error + pyval) \<times> call list" where
  "get_api_url M w =
    (let (api_url, tr) = config_either M w ''mattermost.api_url'' ''mattermost:api_url''
     in if \<not> truthy api_url then (Inl (SaltInvocationError ''No Mattermost API URL found''), tr)
        else (Inr api_url, tr))"

definition get_channel :: "'w mattermost_host \<Rightarrow> 'w \<Rightarrow> pyval \<times> call list" where
  "get_channel M w = config_either M w ''mattermost.channel'' ''mattermost:channel''"

definition get_username :: "'w mattermost_host \<Rightarrow> 'w \<Rightarrow> pyval \<times> call list" where
  "get_username M w = config_either M w ''mattermost.username'' ''mattermost:username''"

text \<open>
  The part of \<open>post_message\<close> after the four settings are known. A missing message is
  logged and nothing else; the concatenation raises \<open>TypeError\<close> when the message is
  not a string.
\<close>

definition send_message ::
  "'w mattermost_host \<Rightarrow> pyval \<Rightarrow> pyval \<Rightarrow> pyval \<Rightarrow> pyval \<Rightarrow> pyval \<Rightarrow> 'w \<Rightarrow> call list
     \<Rightarrow> (py_error + bool) \<times> 'w \<times> call list" where
  "send_message M message channel username api_url hook w tr =
    (let parameters = (if truthy channel then [(''channel'', channel)] else [])
           @ (if truthy username then [(''username'', username)] else [])
     in case message of
          PStr m \<Rightarrow>
            (let parameters' = parameters @ [(''text'', PStr (''```'' @ m @ ''```''))];
                 data = ''payload='' @ json_dumps M parameters';
                 (result, w') = mattermost_query M w api_url hook data
             in (Inr (truthy result), w', tr @ [MattermostQuery api_url hook data]))
        | _ \<Rightarrow> (Inl TypeError, w, tr))"

definition post_message ::
  "'w mattermost_host \<Rightarrow> pyval \<Rightarrow> pyval \<Rightarrow> pyval \<Rightarrow> pyval \<Rightarrow> pyval \<Rightarrow> 'w
     \<Rightarrow> (py_error + bool) \<times> 'w \<times> call list" where
  "post_message M message channel username api_url hook w =
    (case (if \<not> truthy api_url then get_api_url M w else (Inr api_url, [])) of
       (Inl e, tr1) \<Rightarrow> (Inl e, w, tr1)
     | (Inr api_url', tr1) \<Rightarrow>
        (case (if \<not> truthy hook then get_hook M w else (Inr hook, [])) of
           (Inl e, tr2) \<Rightarrow> (Inl e, w, tr1 @ tr2)
         | (Inr hook', tr2) \<Rightarrow>
            (let (username', tr3) =
                   (if \<not> truthy username then get_username M w else (username, []));
                 (channel', tr4) =
                   (if \<not> truthy channel then get_channel M w else (channel, []))
             in send_message M message channel' username' api_url' hook' w
                  (tr1 @ tr2 @ tr3 @ tr4))))"

section \<open>Running a state twice\<close>

text \<open>The second of two calls in a row: it starts in the world the first one left.\<close>

definition twice :: "('w \<Rightarrow> 'r \<times> 'w \<times> call list) \<Rightarrow> 'w \<Rightarrow> 'r \<times> 'w \<times> call list" where
  "twice f w = f (fst (snd (f w)))"

fun is_str :: "pyval \<Rightarrow> bool" where
  "is_str (PStr s) = True"
| "is_str _ = False"

section \<open>Hosts for the examples\<close>

text \<open>
  Small hosts on which the state functions can be run. The database server is the list
  of its databases; the other worlds are a counter of what has happened so far.
\<close>

definition demo_mssql :: "string list mssql_host" where
  "demo_mssql =
     \<lparr>mssql_db_exists = (\<lambda>w n k. PBool (n \<in> set w)),
      mssql_db_create = (\<lambda>w n c os k. (PBool True, n # w)),
      mssql_db_remove = (\<lambda>w n k. (PBool True, removeAll n w))\<rparr>"

definition demo_blockdev ::
  "pyval \<Rightarrow> pyval \<Rightarrow> (nat \<Rightarrow> string) \<Rightarrow> pyval \<Rightarrow> nat blockdev_host" where
  "demo_blockdev dump tune blkid which =
     \<lparr>file_is_blkdev = (\<lambda>w n. PBool True),
      disk_dump = (\<lambda>w n. dump),
      disk_tune = (\<lambda>w n k. (tune, Suc w)),
      disk_format = (\<lambda>w n f fo k. Suc w),
      cmd_run = (\<lambda>w c. blkid w),
      os_path_exists = (\<lambda>w n. True),
      path_which = (\<lambda>w n. which),
      time_sleep = (\<lambda>w s. Suc w)\<rparr>"

definition demo_cimc :: "pyval \<Rightarrow> nat cimc_proxy" where
  "demo_cimc response =
     \<lparr>set_config_modify = (\<lambda>w dn c b. (PBool True, Suc w)),
      get_config_resolver_class = (\<lambda>w c b. response)\<rparr>"

text \<open>The \<open>repr\<close> of the examples, none of which prints a container.\<close>

definition no_repr :: "pyval \<Rightarrow> string" where
  "no_repr v = ''''"

text \<open>A serialiser for the examples: a flat dictionary of plain strings, nothing escaped.\<close>

fun demo_json_items :: "kwargs \<Rightarrow> string" where
  \<open>demo_json_items [] = ''''\<close>
| \<open>demo_json_items [(k, v)] = ''"'' @ k @ ''": "'' @ py_str no_repr v @ ''"''\<close>
| \<open>demo_json_items ((k, v) # kvs) =
     ''"'' @ k @ ''": "'' @ py_str no_repr v @ ''", '' @ demo_json_items kvs\<close>

definition demo_json_dumps :: "kwargs \<Rightarrow> string" where
  "demo_json_dumps d = ''{'' @ demo_json_items d @ ''}''"

definition demo_mattermost :: "kwargs \<Rightarrow> nat mattermost_host" where
  "demo_mattermost config =
     \<lparr>config_get = (\<lambda>w k. case map_of config k of None \<Rightarrow> PNone | Some v \<Rightarrow> v),
      json_dumps = demo_json_dumps,
      mattermost_query = (\<lambda>w u h d. (PBool True, Suc w))\<rparr>"

text \<open>The output of \<open>blkid\<close> on a device whose file system never changes.\<close>

definition blkid_const :: "string \<Rightarrow> nat \<Rightarrow> string" where
  "blkid_const fs w = fs"

text \<open>A disk whose \<open>getro\<close> flag is \<open>ro\<close>, with the answer \<open>disk.tune\<close> gives.\<close>

definition demo_disk :: "string \<Rightarrow> pyval \<Rightarrow> nat blockdev_host" where
  "demo_disk ro tune =
     demo_blockdev (PDict [(KStr ''getro'', PStr ro)]) tune (blkid_const ''ext3'')
       (PStr ''/sbin/mkfs.xfs'')"

section \<open>Notions the properties are stated with\<close>

text \<open>
  Every subscription \<open>current[switch]\<close> and \<open>changes[switch]\<close> that the loop of
  \<open>tuned\<close> makes for these keyword arguments finds a value.
\<close>

definition options_readable :: "pyval \<Rightarrow> pyval \<Rightarrow> kwargs \<Rightarrow> bool" where
  "options_readable current changes kwargs =
     list_all (\<lambda>(k, v). case map_of kwarg_map k of
         None \<Rightarrow> True
       | Some sw \<Rightarrow> \<not> isl (py_getitem current (PStr sw)) \<and> \<not> isl (py_getitem changes (PStr sw)))
       kwargs"

text \<open>The boolean that the text \<open>"1"\<close> or \<open>"0"\<close> of \<open>blockdev\<close> stands for.\<close>

definition as_flag :: "string \<Rightarrow> bool" where
  "as_flag s = (s = ''1'')"

text \<open>The flag as an option shows it: \<open>read-write\<close> is the negation of \<open>getro\<close>.\<close>

definition shown_flag :: "string \<Rightarrow> bool \<Rightarrow> bool" where
  "shown_flag key x = (if key = ''read-write'' then \<not> x else x)"

text \<open>
  The forms of \<open>options\<close> that the docstring of \<open>present\<close> names (a list of strings,
  a dictionary, a list of dictionaries), and every value that is not a list.
\<close>

fun is_dict :: "pyval \<Rightarrow> bool" where
  "is_dict (PDict d) = True"
| "is_dict (PODict d) = True"
| "is_dict _ = False"

fun dict_items :: "pyval \<Rightarrow> (pykey \<times> pyval) list" where
  "dict_items (PDict d) = d"
| "dict_items (PODict d) = d"
| "dict_items _ = []"

fun options_as_documented :: "pyval \<Rightarrow> bool" where
  "options_as_documented (PList xs) = (list_all is_str xs \<or> list_all is_dict xs)"
| "options_as_documented _ = True"

section \<open>Properties\<close>

subsection \<open>The example hosts\<close>

lemma demo_mssql_sel [simp]:
  "mssql_db_exists demo_mssql w n k = PBool (n \<in> set w)"
  "mssql_db_create demo_mssql w n c os k = (PBool True, n # w)"
  "mssql_db_remove demo_mssql w n k = (PBool True, removeAll n w)"
  by (simp_all add: demo_mssql_def)

lemma demo_blockdev_sel [simp]:
  "disk_dump (demo_blockdev d t b wh) w n = d"
  "disk_tune (demo_blockdev d t b wh) w n k = (t, Suc w)"
  "disk_format (demo_blockdev d t b wh) w n f fo k = Suc w"
  "cmd_run (demo_blockdev d t b wh) w c = b w"
  "os_path_exists (demo_blockdev d t b wh) w n = True"
  "path_which (demo_blockdev d t b wh) w n = wh"
  "time_sleep (demo_blockdev d t b wh) w s = Suc w"
  by (simp_all add: demo_blockdev_def)

subsection \<open>A state that is already as declared\<close>

text \<open>
  C1. When the state read from the outside already is the declared one (the database
  exists for \<open>present\<close>, does not exist for \<open>absent\<close>, the device exists and
  \<open>blkid\<close> gives the declared file system for \<open>formatted\<close>), the function returns
  \<open>result = True\<close> and no changes, calls no function that applies a change and leaves
  the world as it was; so a second call right after the first reports no changes either.
\<close>

theorem unchanged_when_state_matches:
  "(truthy (mssql_db_exists H1 w1 db1 kw1) \<longrightarrow>
      (\<exists>r tr. present H1 R test1 db1 containment options kw1 w1 = (r, w1, tr)
           \<and> ret_result r = Some True \<and> ret_changes r = [] \<and> \<not> list_ex is_apply tr
           \<and> ret_changes (fst (twice (present H1 R test1 db1 containment options kw1) w1)) = []))
   \<and> (\<not> truthy (mssql_db_exists H2 w2 db2 []) \<longrightarrow>
      (\<exists>r tr. absent H2 test2 db2 kw2 w2 = (r, w2, tr)
           \<and> ret_result r = Some True \<and> ret_changes r = [] \<and> \<not> list_ex is_apply tr
           \<and> ret_changes (fst (twice (absent H2 test2 db2 kw2) w2)) = []))
   \<and> (os_path_exists H3 w3 dev \<and> checkblk H3 w3 dev = fs_type \<longrightarrow>
      (\<exists>r tr. formatted H3 test3 dev fs_type force kw3 w3 = (r, w3, tr)
           \<and> ret_result r = Some True \<and> ret_changes r = [] \<and> \<not> list_ex is_apply tr
           \<and> ret_changes (fst (twice (formatted H3 test3 dev fs_type force kw3) w3)) = []))"
  by (simp add: present_def absent_def formatted_def twice_def)

theorem unchanged_when_state_matches_witness:
  "truthy (mssql_db_exists demo_mssql [''yolo''] ''yolo'' [])
   \<and> present demo_mssql no_repr False ''yolo'' (PStr ''NONE'') PNone [] [''yolo'']
       = (\<lparr>ret_name = ''yolo'', ret_changes = [], ret_result = Some True,
           ret_comment = ''Database yolo is already present (Not going to try to set its options)''\<rparr>,
          [''yolo''], [DbExists ''yolo'' []])
   \<and> \<not> truthy (mssql_db_exists demo_mssql [] ''yolo'' [])
   \<and> absent demo_mssql False ''yolo'' [] []
       = (\<lparr>ret_name = ''yolo'', ret_changes = [], ret_result = Some True,
           ret_comment = ''Database yolo is not present''\<rparr>, [], [DbExists ''yolo'' []])
   \<and> os_path_exists (demo_blockdev PNone PNone (blkid_const ''ext4'') PNone) 0 ''/dev/sdb1''
   \<and> checkblk (demo_blockdev PNone PNone (blkid_const ''ext4'') PNone) 0 ''/dev/sdb1'' = ''ext4''
   \<and> formatted (demo_blockdev PNone PNone (blkid_const ''ext4'') PNone) False ''/dev/sdb1''
         ''ext4'' (PBool False) [] 0
       = (\<lparr>ret_name = ''/dev/sdb1'', ret_changes = [], ret_result = Some True,
           ret_comment = ''/dev/sdb1 already formatted with ext4''\<rparr>,
          0, [PathExists ''/dev/sdb1'', CmdRun (blkid_cmd ''/dev/sdb1'')])"
  using unchanged_when_state_matches [of demo_mssql "[''yolo'']" "''yolo''" "[]" no_repr False
    "PStr ''NONE''" PNone demo_mssql "[]" "''yolo''" False "[]"
    "demo_blockdev PNone PNone (blkid_const ''ext4'') PNone" 0 "''/dev/sdb1''" "''ext4''"
    False "PBool False" "[]"]
  by (simp add: present_def absent_def formatted_def checkblk_def blkid_const_def)

subsection \<open>Dry run\<close>

text \<open>
  C2, as the claim states it, fails: \<open>formatted\<close> tests for \<open>mkfs.fs_type\<close> before it
  tests the dry-run flag, so with the flag set, a device that has another file system
  and no such program, it returns \<open>result = False\<close>.
\<close>

theorem formatted_dry_run_invalid_fs_type:
  "os_path_exists (demo_blockdev PNone PNone (blkid_const ''ext3'') PNone) 0 ''/dev/sdb1''
   \<and> checkblk (demo_blockdev PNone PNone (blkid_const ''ext3'') PNone) 0 ''/dev/sdb1'' = ''ext3''
   \<and> formatted (demo_blockdev PNone PNone (blkid_const ''ext3'') PNone) True ''/dev/sdb1'' ''xfs''
         (PBool False) [] 0
       = (\<lparr>ret_name = ''/dev/sdb1'', ret_changes = [], ret_result = Some False,
           ret_comment = ''Invalid fs_type: xfs''\<rparr>, 0,
          [PathExists ''/dev/sdb1'', CmdRun (blkid_cmd ''/dev/sdb1''), Which ''mkfs.xfs''])"
  by (simp add: formatted_def checkblk_def blkid_const_def)

text \<open>
  C2, amended. With \<open>__opts__['test']\<close> true: \<open>present\<close> returns \<open>result = None\<close> when
  the database does not exist, \<open>absent\<close> when it exists, \<open>tuned\<close> in every state, and
  \<open>formatted\<close> when the device exists, has another file system and \<open>mkfs.fs_type\<close> is
  found; when it is not found \<open>formatted\<close> returns \<open>result = False\<close> with the comment
  \<open>Invalid fs_type\<close>. In none of these calls is a function called that applies a change,
  and the world is left as it was.
\<close>

theorem dry_run_pending_by_state:
  "(\<not> truthy (mssql_db_exists H1 w1 db1 kw1) \<longrightarrow>
      (\<exists>r tr. present H1 R True db1 containment options kw1 w1 = (r, w1, tr)
           \<and> ret_result r = None \<and> \<not> list_ex is_apply tr))
   \<and> (truthy (mssql_db_exists H2 w2 db2 []) \<longrightarrow>
      (\<exists>r tr. absent H2 True db2 kw2 w2 = (r, w2, tr)
           \<and> ret_result r = None \<and> \<not> list_ex is_apply tr))
   \<and> (\<exists>r. tuned H3 R True dev3 kw3 w3 = (Inr r, w3, []) \<and> ret_result r = None)
   \<and> (os_path_exists H4 w4 dev4 \<and> checkblk H4 w4 dev4 \<noteq> fs_type
        \<and> truthy (path_which H4 w4 (''mkfs.'' @ fs_type)) \<longrightarrow>
      (\<exists>r tr. formatted H4 True dev4 fs_type force kw4 w4 = (r, w4, tr)
           \<and> ret_result r = None \<and> \<not> list_ex is_apply tr))
   \<and> (os_path_exists H4 w4 dev4 \<and> checkblk H4 w4 dev4 \<noteq> fs_type
        \<and> \<not> truthy (path_which H4 w4 (''mkfs.'' @ fs_type)) \<longrightarrow>
      (\<exists>r tr. formatted H4 True dev4 fs_type force kw4 w4 = (r, w4, tr)
           \<and> ret_result r = Some False \<and> ret_comment r = ''Invalid fs_type: '' @ fs_type
           \<and> \<not> list_ex is_apply tr))
   \<and> \<not> list_ex is_apply (snd (snd (present H1 R True db1 containment options kw1 w1)))
   \<and> \<not> list_ex is_apply (snd (snd (absent H2 True db2 kw2 w2)))
   \<and> \<not> list_ex is_apply (snd (snd (formatted H4 True dev4 fs_type force kw4 w4)))"
  by (simp add: present_def absent_def tuned_def formatted_def callable_truthy_def Let_def)

theorem dry_run_pending_by_state_witness:
  "\<not> truthy (mssql_db_exists demo_mssql [] ''yolo'' [])
   \<and> present demo_mssql no_repr True ''yolo'' (PStr ''NONE'') PNone [] []
       = (\<lparr>ret_name = ''yolo'', ret_changes = [], ret_result = None,
           ret_comment = ''Database yolo is set to be added''\<rparr>, [], [DbExists ''yolo'' []])
   \<and> truthy (mssql_db_exists demo_mssql [''yolo''] ''yolo'' [])
   \<and> absent demo_mssql True ''yolo'' [] [''yolo'']
       = (\<lparr>ret_name = ''yolo'', ret_changes = [], ret_result = None,
           ret_comment = ''Database yolo is set to be removed''\<rparr>, [''yolo''], [DbExists ''yolo'' []])
   \<and> tuned (demo_disk ''0'' (PDict [(KStr ''getro'', PStr ''1'')]))
         no_repr True ''/dev/sda'' [(''read-only'', PBool True)] 0
       = (Inr \<lparr>ret_name = ''/dev/sda'', ret_changes = [], ret_result = None,
               ret_comment = ''Changes to /dev/sda will be applied ''\<rparr>, 0, [])
   \<and> os_path_exists (demo_disk ''0'' PNone) 0 ''/dev/sdb1''
   \<and> checkblk (demo_disk ''0'' PNone) 0 ''/dev/sdb1'' = ''ext3''
   \<and> truthy (path_which (demo_disk ''0'' PNone) 0 ''mkfs.xfs'')
   \<and> formatted (demo_disk ''0'' PNone) True ''/dev/sdb1'' ''xfs'' (PBool False) [] 0
       = (\<lparr>ret_name = ''/dev/sdb1'', ret_changes = [], ret_result = None,
           ret_comment = ''Changes to /dev/sdb1 will be applied ''\<rparr>, 0,
          [PathExists ''/dev/sdb1'', CmdRun (blkid_cmd ''/dev/sdb1''), Which ''mkfs.xfs''])
   \<and> \<not> truthy (path_which (demo_blockdev PNone PNone (blkid_const ''ext3'') PNone) 0 ''mkfs.xfs'')
   \<and> ret_result (fst (formatted (demo_blockdev PNone PNone (blkid_const ''ext3'') PNone) True
         ''/dev/sdb1'' ''xfs'' (PBool False) [] 0)) = Some False"
  using dry_run_pending_by_state [where ?H1.0 = demo_mssql and ?w1.0 = "[]" and ?db1.0 = "''yolo''"
      and ?kw1.0 = "[]" and R = no_repr and containment = "PStr ''NONE''" and options = PNone
      and ?H2.0 = demo_mssql and ?w2.0 = "[''yolo'']" and ?db2.0 = "''yolo''" and ?kw2.0 = "[]"
      and ?H3.0 = "demo_disk ''0'' (PDict [(KStr ''getro'', PStr ''1'')])" and ?dev3.0 = "''/dev/sda''"
      and ?kw3.0 = "[(''read-only'', PBool True)]" and ?w3.0 = 0
      and ?H4.0 = "demo_disk ''0'' PNone" and ?w4.0 = 0 and ?dev4.0 = "''/dev/sdb1''"
      and fs_type = "''xfs''" and force = "PBool False" and ?kw4.0 = "[]"]
    dry_run_pending_by_state [where ?H4.0 = "demo_blockdev PNone PNone (blkid_const ''ext3'') PNone"
      and ?w4.0 = 0 and ?dev4.0 = "''/dev/sdb1''" and fs_type = "''xfs''" and force = "PBool False"
      and ?kw4.0 = "[]"]
  by (simp add: present_def absent_def tuned_def formatted_def callable_truthy_def demo_disk_def
      checkblk_def blkid_const_def)


text \<open>With the flag set, no function that applies a change is called, whatever the state.\<close>

lemma dry_run_never_applies:
  "\<not> list_ex is_apply (snd (snd (present H1 R True db1 containment options kw1 w1)))"
  "\<not> list_ex is_apply (snd (snd (absent H2 True db2 kw2 w2)))"
  "\<not> list_ex is_apply (snd (snd (tuned H3 R True dev3 kw3 w3)))"
  "\<not> list_ex is_apply (snd (snd (formatted H4 True dev4 fs_type force kw4 w4)))"
  by (simp_all add: present_def absent_def tuned_def formatted_def callable_truthy_def Let_def)

lemma dry_run_keeps_world:
  "fst (snd (present H1 R True db1 containment options kw1 w1)) = w1"
  "fst (snd (absent H2 True db2 kw2 w2)) = w2"
  "fst (snd (tuned H3 R True dev3 kw3 w3)) = w3"
  "fst (snd (formatted H4 True dev4 fs_type force kw4 w4)) = w4"
  by (simp_all add: present_def absent_def tuned_def formatted_def callable_truthy_def Let_def)

lemma format_poll_trace:
  "\<exists>tr'. snd (snd (format_poll H name fs_type n w tr)) = tr @ tr' \<and> \<not> list_ex is_apply tr'"
proof (induction n arbitrary: w tr)
  case 0
  then show ?case by simp
next
  case (Suc n)
  let ?tr = "tr @ [CmdRun (blkid_cmd name)]"
  obtain tr' where
    "snd (snd (format_poll H name fs_type n (time_sleep H w 3) (?tr @ [Sleep 3])))
       = (?tr @ [Sleep 3]) @ tr'" and "\<not> list_ex is_apply tr'"
    using Suc.IH by blast
  then have "snd (snd (format_poll H name fs_type n (time_sleep H w 3) (?tr @ [Sleep 3])))
       = tr @ ([CmdRun (blkid_cmd name), Sleep 3] @ tr')
     \<and> \<not> list_ex is_apply ([CmdRun (blkid_cmd name), Sleep 3] @ tr')"
    by simp
  then show ?case by (auto simp: Let_def)
qed

text \<open>When a call without the dry-run flag applies a change.\<close>

lemma present_applies_iff:
  "list_ex is_apply (snd (snd (present H R False name containment options kwargs w)))
     = (\<not> truthy (mssql_db_exists H w name kwargs))"
  by (simp add: present_def Let_def case_prod_beta)

lemma absent_applies_iff:
  "list_ex is_apply (snd (snd (absent H False name kwargs w)))
     = truthy (mssql_db_exists H w name [])"
  by (simp add: absent_def Let_def case_prod_beta)

lemma tuned_always_applies:
  "list_ex is_apply (snd (snd (tuned H R False name kwargs w)))"
  by (simp add: tuned_def callable_truthy_def Let_def case_prod_beta split: sum.splits)

lemma formatted_applies_iff:
  "list_ex is_apply (snd (snd (formatted H False name fs_type force kwargs w)))
     = (os_path_exists H w name \<and> checkblk H w name \<noteq> fs_type
        \<and> truthy (path_which H w (''mkfs.'' @ fs_type)))"
proof -
  let ?tr1 = "[PathExists name, CmdRun (blkid_cmd name), Which (''mkfs.'' @ fs_type),
               DiskFormat name fs_type force kwargs]"
  obtain tr' where p: "snd (snd (format_poll H name fs_type 10
       (disk_format H w name fs_type force kwargs) ?tr1)) = ?tr1 @ tr'"
    using format_poll_trace [of H name fs_type 10 "disk_format H w name fs_type force kwargs" ?tr1]
    by auto
  obtain r w2 tr2 where f: "format_poll H name fs_type 10
       (disk_format H w name fs_type force kwargs) ?tr1 = (r, w2, tr2)"
    by (cases "format_poll H name fs_type 10 (disk_format H w name fs_type force kwargs) ?tr1")
  have tr2: "tr2 = ?tr1 @ tr'" using p f by simp
  show ?thesis
    using f tr2 by (cases r) (auto simp: formatted_def Let_def)
qed

subsection \<open>The loop of \<open>tuned\<close>\<close>

lemma getitem_falsy:
  "\<not> truthy c \<Longrightarrow> \<exists>e. py_getitem c (PStr s) = Inl e"
  by (cases c) simp_all

lemma tuned_step_falsy:
  assumes "\<not> truthy changes" "map_of kwarg_map key = Some switch"
  shows "\<exists>e. tuned_step R current changes key val cs = Inl e"
proof -
  obtain e where "py_getitem changes (PStr switch) = Inl e"
    using getitem_falsy [OF assms(1)] by blast
  then show ?thesis
    using assms(2) by (simp add: tuned_step_def split: sum.splits)
qed

lemma tuned_loop_falsy:
  assumes "\<not> truthy changes" "(key, val) \<in> set ks" "map_of kwarg_map key = Some switch"
  shows "\<exists>e. tuned_loop R current changes ks cs = Inl e"
  using assms(2)
proof (induction ks arbitrary: cs)
  case Nil
  then show ?case by simp
next
  case (Cons kv ks)
  obtain k v where kv: "kv = (k, v)" by (cases kv)
  show ?case
  proof (cases "tuned_step R current changes k v cs")
    case (Inl e)
    then show ?thesis by (simp add: kv)
  next
    case (Inr cs')
    have "(k, v) \<noteq> (key, val)"
    proof
      assume "(k, v) = (key, val)"
      then have "\<exists>e. tuned_step R current changes k v cs = Inl e"
        using tuned_step_falsy [OF assms(1) assms(3)] by simp
      with Inr show False by simp
    qed
    then have "(key, val) \<in> set ks" using Cons.prems kv by auto
    then obtain e where "tuned_loop R current changes ks cs' = Inl e"
      using Cons.IH by blast
    then show ?thesis by (simp add: kv Inr)
  qed
qed

text \<open>
  When \<open>disk.tune\<close> gives a false value and one of the keyword arguments is an option
  of \<open>kwarg_map\<close>, \<open>tuned\<close> ends with an exception, whatever the false value is.
\<close>

lemma tuned_raises_on_false_tune:
  assumes "\<not> truthy (fst (disk_tune H w name kwargs))"
    and "(key, val) \<in> set kwargs" and "map_of kwarg_map key = Some switch"
  shows "\<exists>e. fst (tuned H R False name kwargs w) = Inl e"
proof -
  obtain changes w' where t: "disk_tune H w name kwargs = (changes, w')"
    by (cases "disk_tune H w name kwargs")
  have "\<not> truthy changes" using assms(1) t by simp
  from tuned_loop_falsy [OF this assms(2) assms(3)]
  obtain e where "tuned_loop R (disk_dump H w name) changes kwargs [] = Inl e"
    by blast
  then show ?thesis
    by (simp add: tuned_def callable_truthy_def t)
qed

lemma map_of_dict_set: "map_of (dict_set k v d) = (map_of d)(k \<mapsto> v)"
  by (induction d) (auto simp: fun_eq_iff)

lemma tuned_step_other:
  assumes "tuned_step R current changes k v cs = Inr cs'" "k \<noteq> key"
  shows "map_of cs' key = map_of cs key"
  using assms
  by (auto simp: tuned_step_def Let_def map_of_dict_set split: option.splits sum.splits if_splits)

lemma tuned_loop_other:
  assumes "tuned_loop R current changes ks cs = Inr cs'" "key \<notin> fst ` set ks"
  shows "map_of cs' key = map_of cs key"
  using assms
proof (induction ks arbitrary: cs)
  case Nil
  then show ?case by simp
next
  case (Cons kv ks)
  obtain k v where kv: "kv = (k, v)" by (cases kv)
  from Cons.prems(1) obtain cs1 where
    s: "tuned_step R current changes k v cs = Inr cs1" and
    l: "tuned_loop R current changes ks cs1 = Inr cs'"
    by (auto simp: kv split: sum.splits)
  have "k \<noteq> key" "key \<notin> fst ` set ks" using Cons.prems(2) kv by auto
  then show ?case
    using Cons.IH [OF l] tuned_step_other [OF s] by simp
qed

text \<open>The entry of one key after the loop is the one its own step leaves.\<close>

lemma tuned_loop_entry:
  assumes "tuned_loop R current changes ks cs = Inr cs'"
    and "distinct (map fst ks)" and "(key, val) \<in> set ks"
  shows "\<exists>cs1 cs2. tuned_step R current changes key val cs1 = Inr cs2
           \<and> map_of cs1 key = map_of cs key \<and> map_of cs' key = map_of cs2 key"
  using assms
proof (induction ks arbitrary: cs)
  case Nil
  then show ?case by simp
next
  case (Cons kv ks)
  obtain k v where kv: "kv = (k, v)" by (cases kv)
  from Cons.prems(1) obtain cs1 where
    s: "tuned_step R current changes k v cs = Inr cs1" and
    l: "tuned_loop R current changes ks cs1 = Inr cs'"
    by (auto simp: kv split: sum.splits)
  show ?case
  proof (cases "(k, v) = (key, val)")
    case True
    then have "key \<notin> fst ` set ks" using Cons.prems(2) kv by auto
    then have "map_of cs' key = map_of cs1 key"
      using tuned_loop_other [OF l] by simp
    with s True show ?thesis by auto
  next
    case False
    then have in_ks: "(key, val) \<in> set ks" using Cons.prems(3) kv by auto
    have "k \<noteq> key"
    proof
      assume "k = key"
      moreover have "k \<notin> fst ` set ks" using Cons.prems(2) kv by auto
      ultimately show False using in_ks by force
    qed
    then have same: "map_of cs1 key = map_of cs key"
      using tuned_step_other [OF s] by simp
    have "distinct (map fst ks)" using Cons.prems(2) by simp
    from Cons.IH [OF l this in_ks] same show ?thesis by auto
  qed
qed

lemma tuned_loop_returns:
  assumes "\<forall>(k, v) \<in> set ks. \<forall>sw. map_of kwarg_map k = Some sw \<longrightarrow>
             (\<exists>c. py_getitem current (PStr sw) = Inr c) \<and> (\<exists>n. py_getitem changes (PStr sw) = Inr n)"
  shows "\<exists>cs'. tuned_loop R current changes ks cs = Inr cs'"
  using assms
proof (induction ks arbitrary: cs)
  case Nil
  then show ?case by simp
next
  case (Cons kv ks)
  obtain k v where kv: "kv = (k, v)" by (cases kv)
  have "\<exists>cs1. tuned_step R current changes k v cs = Inr cs1"
  proof (cases "map_of kwarg_map k")
    case None
    then show ?thesis by (simp add: tuned_step_def)
  next
    case (Some sw)
    then obtain c n where "py_getitem current (PStr sw) = Inr c" "py_getitem changes (PStr sw) = Inr n"
      using Cons.prems kv by fastforce
    then show ?thesis using Some by (simp add: tuned_step_def Let_def)
  qed
  then obtain cs1 where s: "tuned_step R current changes k v cs = Inr cs1" by blast
  have "\<exists>cs'. tuned_loop R current changes ks cs1 = Inr cs'"
    using Cons.IH Cons.prems by simp
  then show ?case by (simp add: kv s)
qed

lemma seq_index_nonempty: "seq_index xs i = Inr v \<Longrightarrow> xs \<noteq> []"
  by (auto simp: seq_index_def split: if_splits)

lemma dict_get_nonempty: "dict_get d k = Some v \<Longrightarrow> d \<noteq> []"
  by (cases d) auto

text \<open>Only a true value can be subscripted.\<close>

lemma getitem_truthy: "py_getitem c k = Inr v \<Longrightarrow> truthy c"
proof (cases c)
  case (PList xs)
  assume "py_getitem c k = Inr v"
  then show ?thesis using PList
    by (auto split: option.splits dest: seq_index_nonempty)
next
  case (PStr s)
  assume "py_getitem c k = Inr v"
  then show ?thesis using PStr
    by (auto split: option.splits sum.splits dest: seq_index_nonempty)
next
  case (PDict d)
  assume "py_getitem c k = Inr v"
  then show ?thesis using PDict
    by (auto split: option.splits dest: dict_get_nonempty)
next
  case (PODict d)
  assume "py_getitem c k = Inr v"
  then show ?thesis using PODict
    by (auto split: option.splits dest: dict_get_nonempty)
qed simp_all

lemma not_isl_Inr: "\<not> isl x \<Longrightarrow> \<exists>y. x = Inr y"
  by (cases x) simp_all

lemma options_readable_entry:
  assumes "options_readable current changes ks" "(k, v) \<in> set ks" "map_of kwarg_map k = Some sw"
  shows "(\<exists>c. py_getitem current (PStr sw) = Inr c) \<and> (\<exists>n. py_getitem changes (PStr sw) = Inr n)"
proof -
  have "\<not> isl (py_getitem current (PStr sw)) \<and> \<not> isl (py_getitem changes (PStr sw))"
    using assms by (force simp: options_readable_def list_all_iff)
  then show ?thesis using not_isl_Inr by blast
qed

lemma options_readable_loop:
  assumes "options_readable current changes ks"
  shows "\<exists>cs'. tuned_loop R current changes ks cs = Inr cs'"
proof (rule tuned_loop_returns)
  show "\<forall>(k, v) \<in> set ks. \<forall>sw. map_of kwarg_map k = Some sw \<longrightarrow>
          (\<exists>c. py_getitem current (PStr sw) = Inr c) \<and> (\<exists>n. py_getitem changes (PStr sw) = Inr n)"
    using options_readable_entry [OF assms] by blast
qed

text \<open>What \<open>tuned\<close> returns when every subscription of its loop succeeds.\<close>

lemma tuned_returns:
  assumes "options_readable (disk_dump H w name) (fst (disk_tune H w name kwargs)) kwargs"
    and "(key, val) \<in> set kwargs" and "map_of kwarg_map key = Some switch"
  shows "\<exists>r cs. tuned H R False name kwargs w
            = (Inr r, snd (disk_tune H w name kwargs), [DiskDump name, DiskTune name kwargs])
          \<and> tuned_loop R (disk_dump H w name) (fst (disk_tune H w name kwargs)) kwargs [] = Inr cs
          \<and> ret_changes r = cs \<and> ret_result r = Some True"
proof -
  obtain changes w' where t: "disk_tune H w name kwargs = (changes, w')"
    by (cases "disk_tune H w name kwargs")
  have ro: "options_readable (disk_dump H w name) changes kwargs"
    using assms(1) t by simp
  obtain cs where cs: "tuned_loop R (disk_dump H w name) changes kwargs [] = Inr cs"
    using options_readable_loop [OF ro] by blast
  obtain n where "py_getitem changes (PStr switch) = Inr n"
    using options_readable_entry [OF ro assms(2) assms(3)] by blast
  then have tc: "truthy changes" by (rule getitem_truthy)
  show ?thesis
  proof (cases "cs = []")
    case True
    then show ?thesis using tc by (simp add: tuned_def callable_truthy_def t cs)
  next
    case False
    then show ?thesis using tc by (simp add: tuned_def callable_truthy_def t cs)
  qed
qed

lemma tuned_step_entry:
  assumes "map_of kwarg_map key = Some switch"
    and "py_getitem current (PStr switch) = Inr (PStr a)"
    and "py_getitem changes (PStr switch) = Inr (PStr b)"
    and "tuned_step R current changes key (PBool d) cs1 = Inr cs2"
  shows "map_of cs2 key =
     (if a = b then map_of cs1 key
      else Some (''Changed from '' @ py_str R (PBool (shown_flag key (as_flag a)))
                 @ '' to '' @ py_str R (PBool (shown_flag key (as_flag b)))))"
proof (cases "a = b")
  case True
  then have "cs2 = cs1" using assms by (simp add: tuned_step_def)
  then show ?thesis using True by simp
next
  case False
  let ?e = "''Changed from '' @ py_str R (PBool (shown_flag key (as_flag a)))
          @ '' to '' @ py_str R (PBool (shown_flag key (as_flag b)))"
  have "cs2 = dict_set key ?e cs1"
  proof (cases "key = ''read-write''")
    case True
    then show ?thesis
      using assms False by (simp add: tuned_step_def shown_flag_def as_flag_def)
  next
    case rw: False
    then show ?thesis
      using assms False by (simp add: tuned_step_def shown_flag_def as_flag_def)
  qed
  then show ?thesis using False by (simp only: map_of_dict_set fun_upd_same if_False)
qed

subsection \<open>Failures of the applying call\<close>

text \<open>The failures that are reported as \<open>result = False\<close>.\<close>

lemma present_reports_failed_create:
  assumes "\<not> truthy (mssql_db_exists H w name kwargs)"
    and "fst (mssql_db_create H w name containment (normalize_options R options) kwargs) \<noteq> PBool True"
  shows "ret_result (fst (present H R False name containment options kwargs w)) = Some False"
    and "ret_comment (fst (present H R False name containment options kwargs w))
          = ''Database '' @ name @ '' failed to be created: ''
            @ py_str R (fst (mssql_db_create H w name containment (normalize_options R options) kwargs))"
  using assms by (simp_all add: present_def Let_def case_prod_beta)

lemma absent_reports_failed_remove:
  assumes "truthy (mssql_db_exists H w name [])"
    and "\<not> truthy (fst (mssql_db_remove H w name kwargs))"
  shows "ret_result (fst (absent H False name kwargs w)) = Some False"
    and "ret_comment (fst (absent H False name kwargs w))
          = ''Database '' @ name @ '' failed to be removed''"
  using assms by (simp_all add: absent_def Let_def case_prod_beta)

lemma formatted_reports_failed_format:
  assumes "os_path_exists H w name" and "checkblk H w name \<noteq> fs_type"
    and "truthy (path_which H w (''mkfs.'' @ fs_type))"
    and "fst (format_poll H name fs_type 10 (disk_format H w name fs_type force kwargs)
           [PathExists name, CmdRun (blkid_cmd name), Which (''mkfs.'' @ fs_type),
            DiskFormat name fs_type force kwargs]) = None"
  shows "ret_result (fst (formatted H False name fs_type force kwargs w)) = Some False"
    and "ret_comment (fst (formatted H False name fs_type force kwargs w))
          = ''Failed to format '' @ name"
proof -
  let ?tr1 = "[PathExists name, CmdRun (blkid_cmd name), Which (''mkfs.'' @ fs_type),
               DiskFormat name fs_type force kwargs]"
  obtain r w2 tr2 where f: "format_poll H name fs_type 10
       (disk_format H w name fs_type force kwargs) ?tr1 = (r, w2, tr2)"
    by (cases "format_poll H name fs_type 10 (disk_format H w name fs_type force kwargs) ?tr1")
  then have "r = None" using assms(4) by simp
  then show "ret_result (fst (formatted H False name fs_type force kwargs w)) = Some False"
    and "ret_comment (fst (formatted H False name fs_type force kwargs w))
          = ''Failed to format '' @ name"
    using assms(1) assms(2) assms(3) f by (auto simp: formatted_def Let_def)
qed

lemma tuned_loop_no_option:
  assumes "\<forall>(k, v) \<in> set ks. map_of kwarg_map k = None"
  shows "tuned_loop R current changes ks cs = Inr cs"
  using assms by (induction ks arbitrary: cs) (auto simp: tuned_step_def)

lemma tuned_reports_failed_tune_without_options:
  assumes "\<not> truthy (fst (disk_tune H w name kwargs))"
    and "\<forall>(k, v) \<in> set kwargs. map_of kwarg_map k = None"
  shows "\<exists>r. fst (tuned H R False name kwargs w) = Inr r \<and> ret_result r = Some False
           \<and> ret_comment r = ''Failed to modify block device '' @ name"
  using assms tuned_loop_no_option [OF assms(2)]
  by (simp add: tuned_def callable_truthy_def Let_def case_prod_beta)


text \<open>
  C3. A failed apply is meant to be reported as \<open>result = False\<close> with a comment, not
  raised. \<open>tuned\<close> does not do so: with \<open>read-only: True\<close> declared and \<open>disk.tune\<close>
  returning \<open>False\<close>, the loop subscripts the \<open>False\<close> before the test of \<open>changes\<close> is
  reached, and the call ends with \<open>TypeError\<close>.
\<close>

theorem tuned_raises_when_tune_fails:
  "tuned (demo_disk ''0'' (PBool False)) no_repr False ''/dev/sda'' [(''read-only'', PBool True)] 0
     = (Inl TypeError, Suc 0,
        [DiskDump ''/dev/sda'', DiskTune ''/dev/sda'' [(''read-only'', PBool True)]])"
  by (simp add: tuned_def callable_truthy_def demo_disk_def tuned_step_def kwarg_map_def)

subsection \<open>Boolean options of \<open>tuned\<close>\<close>






text \<open>
  C5. With \<open>read-write: True\<close> declared and the \<open>getro\<close> flag the same before and after
  \<open>disk.tune\<close> (so also when it is \<open>"0"\<close> both times), \<open>read-write\<close> is not in the changes;
  when the flag differs, the values reported for \<open>read-write\<close> are the negations of the
  read-only flags.
\<close>

theorem read_write_reported_negated:
  assumes "options_readable (disk_dump H w name) (fst (disk_tune H w name kwargs)) kwargs"
    and "distinct (map fst kwargs)"
    and "(''read-write'', PBool True) \<in> set kwargs"
    and "py_getitem (disk_dump H w name) (PStr ''getro'') = Inr (PStr a)"
    and "py_getitem (fst (disk_tune H w name kwargs)) (PStr ''getro'') = Inr (PStr b)"
  shows "\<exists>r w' tr. tuned H R False name kwargs w = (Inr r, w', tr)
     \<and> ret_result r = Some True
     \<and> map_of (ret_changes r) ''read-write'' =
        (if a = b then None
         else Some (''Changed from '' @ py_str R (PBool (\<not> as_flag a))
                    @ '' to '' @ py_str R (PBool (\<not> as_flag b))))"
proof -
  have m: "map_of kwarg_map ''read-write'' = Some ''getro''"
    by (simp add: kwarg_map_def)
  from tuned_returns [OF assms(1) assms(3) m]
  obtain r cs where
    r: "tuned H R False name kwargs w
          = (Inr r, snd (disk_tune H w name kwargs), [DiskDump name, DiskTune name kwargs])" and
    l: "tuned_loop R (disk_dump H w name) (fst (disk_tune H w name kwargs)) kwargs [] = Inr cs" and
    c: "ret_changes r = cs" and res: "ret_result r = Some True"
    by blast
  from tuned_loop_entry [OF l assms(2) assms(3)]
  obtain cs1 cs2 where
    s: "tuned_step R (disk_dump H w name) (fst (disk_tune H w name kwargs)) ''read-write''
          (PBool True) cs1 = Inr cs2" and
    e1: "map_of cs1 ''read-write'' = map_of [] ''read-write''" and
    e2: "map_of cs ''read-write'' = map_of cs2 ''read-write''"
    by blast
  have sf: "\<And>x. shown_flag ''read-write'' x = (\<not> x)"
    by (simp add: shown_flag_def)
  have "map_of cs ''read-write'' =
     (if a = b then None
      else Some (''Changed from '' @ py_str R (PBool (\<not> as_flag a))
                 @ '' to '' @ py_str R (PBool (\<not> as_flag b))))"
    unfolding e2 tuned_step_entry [OF m assms(4) assms(5) s] e1 sf by simp
  then show ?thesis unfolding r c [symmetric] using res by blast
qed

theorem read_write_reported_negated_witness:
  "options_readable (disk_dump (demo_disk ''0'' (PDict [(KStr ''getro'', PStr ''0'')])) 0 ''/dev/sda'')
      (fst (disk_tune (demo_disk ''0'' (PDict [(KStr ''getro'', PStr ''0'')])) 0 ''/dev/sda''
         [(''read-write'', PBool True)])) [(''read-write'', PBool True)]
   \<and> distinct (map fst [(''read-write'', PBool True)])
   \<and> tuned (demo_disk ''0'' (PDict [(KStr ''getro'', PStr ''0'')])) no_repr False ''/dev/sda''
        [(''read-write'', PBool True)] 0
      = (Inr \<lparr>ret_name = ''/dev/sda'', ret_changes = [], ret_result = Some True,
               ret_comment = ''Block device /dev/sda already in correct state''\<rparr>,
         Suc 0, [DiskDump ''/dev/sda'', DiskTune ''/dev/sda'' [(''read-write'', PBool True)]])"
  using read_write_reported_negated [of "demo_disk ''0'' (PDict [(KStr ''getro'', PStr ''0'')])" 0
    "''/dev/sda''" "[(''read-write'', PBool True)]" "''0''" "''0''" no_repr]
  by (simp add: tuned_def callable_truthy_def demo_disk_def tuned_step_def kwarg_map_def
      options_readable_def)

text \<open>A device that is read-only before and writable after.\<close>

lemma read_write_change_example:
  "tuned (demo_disk ''1'' (PDict [(KStr ''getro'', PStr ''0'')])) no_repr False ''/dev/sda''
        [(''read-write'', PBool True)] 0
      = (Inr \<lparr>ret_name = ''/dev/sda'',
               ret_changes = [(''read-write'', ''Changed from False to True'')],
               ret_result = Some True,
               ret_comment = ''Block device /dev/sda successfully modified ''\<rparr>,
         Suc 0, [DiskDump ''/dev/sda'', DiskTune ''/dev/sda'' [(''read-write'', PBool True)]])"
  by (simp add: tuned_def callable_truthy_def demo_disk_def tuned_step_def kwarg_map_def)

subsection \<open>The example hosts of the device and of the webhook\<close>

lemma demo_cimc_sel [simp]:
  "set_config_modify (demo_cimc r) w dn c b = (PBool True, Suc w)"
  "get_config_resolver_class (demo_cimc r) w c b = r"
  by (simp_all add: demo_cimc_def)

lemma demo_mattermost_sel [simp]:
  "config_get (demo_mattermost cfg) w k = (case map_of cfg k of None \<Rightarrow> PNone | Some v \<Rightarrow> v)"
  "json_dumps (demo_mattermost cfg) = demo_json_dumps"
  "mattermost_query (demo_mattermost cfg) w u h d = (PBool True, Suc w)"
  by (simp_all add: demo_mattermost_def)


subsection \<open>Parameters checked before the call\<close>

text \<open>
  \<open>create_user\<close> and \<open>set_logging_levels\<close> raise before the proxy is called when a
  required parameter is missing or a severity is not one of the eight levels.
\<close>

lemma create_user_missing_parameter:
  assumes "\<not> truthy uid \<or> \<not> truthy username \<or> \<not> truthy password \<or> \<not> truthy priv"
  shows "\<exists>msg. create_user P R uid username password priv w = (Inl (CommandExecutionError msg), w, [])"
  using assms by (auto simp: create_user_def)

lemma set_logging_levels_invalid_severity:
  assumes "(truthy remote \<and> \<not> py_in remote logging_options)
         \<or> (truthy local \<and> \<not> py_in local logging_options)"
  shows "\<exists>msg. set_logging_levels P R remote local w = (Inl (CommandExecutionError msg), w, [])"
  using assms by (auto simp: set_logging_levels_def Let_def)

lemma post_message_empty_message_is_sent:
  assumes "truthy api_url" "truthy hook"
  shows "\<exists>b w' tr. post_message M (PStr []) channel username api_url hook w = (Inr b, w', tr)
           \<and> list_ex is_external tr"
  using assms
  by (auto simp: post_message_def send_message_def Let_def split: prod.splits)


text \<open>
  C6. A missing required parameter is meant to raise before any external call.
  \<open>post_message\<close> does not do so for its message: an empty message is logged as
  "message is a required option." and then posted to the webhook all the same.
\<close>

theorem post_message_sends_missing_message:
  \<open>post_message (demo_mattermost []) (PStr '''') PNone PNone (PStr ''https://example.com'')
       (PStr ''peWcBiMOS9HrZG15'') 0
     = (Inr True, Suc 0,
        [ConfigGet ''mattermost.username'', ConfigGet ''mattermost:username'',
         ConfigGet ''mattermost.channel'', ConfigGet ''mattermost:channel'',
         MattermostQuery (PStr ''https://example.com'') (PStr ''peWcBiMOS9HrZG15'')
           ''payload={"text": "``````"}''])\<close>
  by (simp add: post_message_def send_message_def get_username_def get_channel_def
      config_either_def demo_json_dumps_def no_repr_def)


subsection \<open>Activating the backup image\<close>

text \<open>
  C7. \<open>activate_backup_image\<close> with its default \<open>reset=False\<close> makes one call to the
  proxy's \<open>set_config_modify\<close>, for the object
  \<open>sys/rack-unit-1/mgmt/fw-boot-def/bootunit-combined\<close>, with the payload
  \<open>adminState='trigger' image='backup' resetOnActivate='no'\<close>, and returns what the
  proxy returns; with \<open>reset=True\<close> the payload has \<open>resetOnActivate='yes'\<close>.
\<close>

theorem activate_backup_image_payload:
  \<open>activate_backup_image P (PBool False) w
     = (fst (set_config_modify P w ''sys/rack-unit-1/mgmt/fw-boot-def/bootunit-combined''
               (''<firmwareBootUnit dn='sys/rack-unit-1/mgmt/fw-boot-def/bootunit-combined''
                @ [CHR 0x27, CHR 0x0A]
                @ ''    adminState='trigger' image='backup' resetOnActivate='no' />'') False),
        snd (set_config_modify P w ''sys/rack-unit-1/mgmt/fw-boot-def/bootunit-combined''
               (''<firmwareBootUnit dn='sys/rack-unit-1/mgmt/fw-boot-def/bootunit-combined''
                @ [CHR 0x27, CHR 0x0A]
                @ ''    adminState='trigger' image='backup' resetOnActivate='no' />'') False),
        [SetConfigModify ''sys/rack-unit-1/mgmt/fw-boot-def/bootunit-combined''
               (''<firmwareBootUnit dn='sys/rack-unit-1/mgmt/fw-boot-def/bootunit-combined''
                @ [CHR 0x27, CHR 0x0A]
                @ ''    adminState='trigger' image='backup' resetOnActivate='no' />'') False])
   \<and> activate_backup_image P (PBool True) w
     = (fst (set_config_modify P w ''sys/rack-unit-1/mgmt/fw-boot-def/bootunit-combined''
               (''<firmwareBootUnit dn='sys/rack-unit-1/mgmt/fw-boot-def/bootunit-combined''
                @ [CHR 0x27, CHR 0x0A]
                @ ''    adminState='trigger' image='backup' resetOnActivate='yes' />'') False),
        snd (set_config_modify P w ''sys/rack-unit-1/mgmt/fw-boot-def/bootunit-combined''
               (''<firmwareBootUnit dn='sys/rack-unit-1/mgmt/fw-boot-def/bootunit-combined''
                @ [CHR 0x27, CHR 0x0A]
                @ ''    adminState='trigger' image='backup' resetOnActivate='yes' />'') False),
        [SetConfigModify ''sys/rack-unit-1/mgmt/fw-boot-def/bootunit-combined''
               (''<firmwareBootUnit dn='sys/rack-unit-1/mgmt/fw-boot-def/bootunit-combined''
                @ [CHR 0x27, CHR 0x0A]
                @ ''    adminState='trigger' image='backup' resetOnActivate='yes' />'') False])\<close>
  by (simp add: activate_backup_image_def backup_image_dn_def backup_image_config_def
      case_prod_beta Let_def)


subsection \<open>Posting a message\<close>

lemma config_either_trace: "\<not> list_ex is_external (snd (config_either M w a b))"
  by (simp add: config_either_def Let_def)

lemma get_api_url_found:
  assumes "truthy (fst (config_either M w ''mattermost.api_url'' ''mattermost:api_url''))"
  shows "get_api_url M w
           = (Inr (fst (config_either M w ''mattermost.api_url'' ''mattermost:api_url'')),
              snd (config_either M w ''mattermost.api_url'' ''mattermost:api_url''))"
  using assms by (simp add: get_api_url_def case_prod_beta)

lemma get_hook_found:
  assumes "truthy (fst (config_either M w ''mattermost.hook'' ''mattermost:hook''))"
  shows "get_hook M w
           = (Inr (fst (config_either M w ''mattermost.hook'' ''mattermost:hook'')),
              snd (config_either M w ''mattermost.hook'' ''mattermost:hook''))"
  using assms by (simp add: get_hook_def case_prod_beta)

text \<open>
  C8. With a message, a hook and an API URL that are passed or configured, and no
  channel and no user name passed or configured, \<open>post_message\<close> makes one external
  call, the query, whose data is \<open>payload=\<close> followed by the JSON text of the
  dictionary with the one key \<open>text\<close>, the message between two \<open>```\<close>; it returns
  the truth value of what the query returns.
\<close>

theorem post_message_text_only:
  assumes "u = (if truthy api_url then api_url
                else fst (config_either M w ''mattermost.api_url'' ''mattermost:api_url''))"
    and "truthy u"
    and "h = (if truthy hook then hook
              else fst (config_either M w ''mattermost.hook'' ''mattermost:hook''))"
    and "truthy h"
    and "\<not> truthy username" and "\<not> truthy (fst (get_username M w))"
    and "\<not> truthy channel" and "\<not> truthy (fst (get_channel M w))"
    and "data = ''payload='' @ json_dumps M [(''text'', PStr (''```'' @ m @ ''```''))]"
  shows "\<exists>tr. post_message M (PStr m) channel username api_url hook w
            = (Inr (truthy (fst (mattermost_query M w u h data))),
               snd (mattermost_query M w u h data),
               tr @ [MattermostQuery u h data])
          \<and> \<not> list_ex is_external tr"
proof -
  obtain tr1 where a: "(if \<not> truthy api_url then get_api_url M w else (Inr api_url, [])) = (Inr u, tr1)"
    and a': "\<not> list_ex is_external tr1"
  proof (cases "truthy api_url")
    case True
    then show ?thesis using that [of "[]"] assms(1) by simp
  next
    case False
    then have g: "get_api_url M w
        = (Inr u, snd (config_either M w ''mattermost.api_url'' ''mattermost:api_url''))"
      using get_api_url_found [of M w] assms(1) assms(2) by simp
    show ?thesis
      by (rule that [of "snd (config_either M w ''mattermost.api_url'' ''mattermost:api_url'')"])
         (simp_all add: False g config_either_trace)
  qed
  obtain tr2 where b: "(if \<not> truthy hook then get_hook M w else (Inr hook, [])) = (Inr h, tr2)"
    and b': "\<not> list_ex is_external tr2"
  proof (cases "truthy hook")
    case True
    then show ?thesis using that [of "[]"] assms(3) by simp
  next
    case False
    then have g: "get_hook M w
        = (Inr h, snd (config_either M w ''mattermost.hook'' ''mattermost:hook''))"
      using get_hook_found [of M w] assms(3) assms(4) by simp
    show ?thesis
      by (rule that [of "snd (config_either M w ''mattermost.hook'' ''mattermost:hook'')"])
         (simp_all add: False g config_either_trace)
  qed
  obtain x tr3 where c: "get_username M w = (x, tr3)" by (cases "get_username M w")
  have c': "\<not> truthy x" using assms(6) c by simp
  have c'': "\<not> list_ex is_external tr3"
    using config_either_trace [of M w "''mattermost.username''" "''mattermost:username''"] c
    by (simp add: get_username_def)
  obtain y tr4 where d: "get_channel M w = (y, tr4)" by (cases "get_channel M w")
  have d': "\<not> truthy y" using assms(8) d by simp
  have d'': "\<not> list_ex is_external tr4"
    using config_either_trace [of M w "''mattermost.channel''" "''mattermost:channel''"] d
    by (simp add: get_channel_def)
  have "post_message M (PStr m) channel username api_url hook w
          = send_message M (PStr m) y x u h w (tr1 @ tr2 @ tr3 @ tr4)"
    unfolding post_message_def a b using assms(5) assms(7) by (simp add: c d)
  also have "\<dots> = (Inr (truthy (fst (mattermost_query M w u h data))),
               snd (mattermost_query M w u h data),
               (tr1 @ tr2 @ tr3 @ tr4) @ [MattermostQuery u h data])"
    using c' d' by (simp add: send_message_def assms(9) case_prod_beta Let_def)
  finally show ?thesis using a' b' c'' d'' by (intro exI [of _ "tr1 @ tr2 @ tr3 @ tr4"]) simp
qed

theorem post_message_text_only_witness:
  \<open>truthy (PStr ''https://example.com'') \<and> truthy (PStr ''peWcBiMOS9HrZG15'')
   \<and> \<not> truthy PNone
   \<and> \<not> truthy (fst (get_username (demo_mattermost
         [(''mattermost.hook'', PStr ''peWcBiMOS9HrZG15''),
          (''mattermost.api_url'', PStr ''https://example.com'')]) 0))
   \<and> \<not> truthy (fst (get_channel (demo_mattermost
         [(''mattermost.hook'', PStr ''peWcBiMOS9HrZG15''),
          (''mattermost.api_url'', PStr ''https://example.com'')]) 0))
   \<and> post_message (demo_mattermost
         [(''mattermost.hook'', PStr ''peWcBiMOS9HrZG15''),
          (''mattermost.api_url'', PStr ''https://example.com'')])
        (PStr ''Build is done'') PNone PNone PNone PNone 0
      = (Inr True, Suc 0,
         [ConfigGet ''mattermost.api_url'', ConfigGet ''mattermost.hook'',
          ConfigGet ''mattermost.username'', ConfigGet ''mattermost:username'',
          ConfigGet ''mattermost.channel'', ConfigGet ''mattermost:channel'',
          MattermostQuery (PStr ''https://example.com'') (PStr ''peWcBiMOS9HrZG15'')
            ''payload={"text": "```Build is done```"}''])\<close>
  using post_message_text_only [of "PStr ''https://example.com''" PNone
    "demo_mattermost [(''mattermost.hook'', PStr ''peWcBiMOS9HrZG15''),
          (''mattermost.api_url'', PStr ''https://example.com'')]" 0
    "PStr ''peWcBiMOS9HrZG15''" PNone PNone PNone
    "''payload='' @ demo_json_dumps [(''text'', PStr (''```'' @ ''Build is done'' @ ''```''))]"
    "''Build is done''"]
  by (simp add: post_message_def send_message_def get_username_def get_channel_def
      get_api_url_def get_hook_def config_either_def demo_json_dumps_def no_repr_def)


subsection \<open>Reading the host name\<close>

text \<open>
  C9. Whatever the proxy answers, \<open>get_hostname\<close> returns a value and raises
  nothing: the host name at \<open>outConfigs.mgmtIf[0].hostname\<close> of the answer when the four
  subscriptions find it, and the text \<open>Unable to retrieve hostname\<close> when one of them
  fails.
\<close>

theorem get_hostname_found_or_fallback:
  "(\<forall>a b c h.
       py_getitem (get_config_resolver_class P w ''mgmtIf'' True) (PStr ''outConfigs'') = Inr a
     \<and> py_getitem a (PStr ''mgmtIf'') = Inr b
     \<and> py_getitem b (PInt 0) = Inr c
     \<and> py_getitem c (PStr ''hostname'') = Inr h
     \<longrightarrow> get_hostname P w = (Inr h, [GetConfigResolverClass ''mgmtIf'' True]))
   \<and> ((\<nexists>a b c h.
       py_getitem (get_config_resolver_class P w ''mgmtIf'' True) (PStr ''outConfigs'') = Inr a
     \<and> py_getitem a (PStr ''mgmtIf'') = Inr b
     \<and> py_getitem b (PInt 0) = Inr c
     \<and> py_getitem c (PStr ''hostname'') = Inr h)
     \<longrightarrow> get_hostname P w
          = (Inr (PStr ''Unable to retrieve hostname''), [GetConfigResolverClass ''mgmtIf'' True]))"
  by (auto simp: get_hostname_def hostname_of_def split: sum.splits)

theorem get_hostname_found_or_fallback_witness:
  "py_getitem (get_config_resolver_class (demo_cimc (PDict [(KStr ''outConfigs'',
        PDict [(KStr ''mgmtIf'', PList [PDict [(KStr ''hostname'', PStr ''ucs-1'')]])])])) 0
        ''mgmtIf'' True) (PStr ''outConfigs'')
      = Inr (PDict [(KStr ''mgmtIf'', PList [PDict [(KStr ''hostname'', PStr ''ucs-1'')]])])
   \<and> py_getitem (PDict [(KStr ''mgmtIf'', PList [PDict [(KStr ''hostname'', PStr ''ucs-1'')]])])
        (PStr ''mgmtIf'') = Inr (PList [PDict [(KStr ''hostname'', PStr ''ucs-1'')]])
   \<and> py_getitem (PList [PDict [(KStr ''hostname'', PStr ''ucs-1'')]]) (PInt 0)
      = Inr (PDict [(KStr ''hostname'', PStr ''ucs-1'')])
   \<and> py_getitem (PDict [(KStr ''hostname'', PStr ''ucs-1'')]) (PStr ''hostname'') = Inr (PStr ''ucs-1'')
   \<and> get_hostname (demo_cimc (PDict [(KStr ''outConfigs'',
        PDict [(KStr ''mgmtIf'', PList [PDict [(KStr ''hostname'', PStr ''ucs-1'')]])])])) 0
      = (Inr (PStr ''ucs-1''), [GetConfigResolverClass ''mgmtIf'' True])
   \<and> py_getitem (get_config_resolver_class (demo_cimc PNone) 0 ''mgmtIf'' True) (PStr ''outConfigs'')
      = Inl TypeError
   \<and> get_hostname (demo_cimc PNone) 0
      = (Inr (PStr ''Unable to retrieve hostname''), [GetConfigResolverClass ''mgmtIf'' True])"
  using get_hostname_found_or_fallback [of "demo_cimc (PDict [(KStr ''outConfigs'',
        PDict [(KStr ''mgmtIf'', PList [PDict [(KStr ''hostname'', PStr ''ucs-1'')]])])])" 0]
    get_hostname_found_or_fallback [of "demo_cimc PNone" 0]
  by (simp add: seq_index_def)


lemma get_hostname_found_example:
  "get_hostname (demo_cimc (PDict [(KStr ''outConfigs'',
       PDict [(KStr ''mgmtIf'', PList [PDict [(KStr ''hostname'', PStr ''ucs-1'')]])])])) 0
     = (Inr (PStr ''ucs-1''), [GetConfigResolverClass ''mgmtIf'' True])"
  by (simp add: get_hostname_def hostname_of_def seq_index_def)

lemma get_hostname_fallback_example:
  "get_hostname (demo_cimc (PDict [(KStr ''outConfigs'', PDict [(KStr ''mgmtIf'', PList [])])])) 0
     = (Inr (PStr ''Unable to retrieve hostname''), [GetConfigResolverClass ''mgmtIf'' True])"
  "get_hostname (demo_cimc PNone) 0
     = (Inr (PStr ''Unable to retrieve hostname''), [GetConfigResolverClass ''mgmtIf'' True])"
  by (simp_all add: get_hostname_def hostname_of_def seq_index_def)


subsection \<open>The options of a new database\<close>

text \<open>
  C10, as the claim states it, fails: \<open>_normalize_options\<close> looks at the first
  element of a list only, so a list that starts with a string is returned as it is,
  with the elements that are not strings, and \<open>present\<close> passes it to \<open>mssql.db_create\<close>.
\<close>

theorem normalize_options_mixed_list:
  "normalize_options no_repr (PList [PStr ''a'', PInt 1]) = [PStr ''a'', PInt 1]
   \<and> \<not> list_all is_str (normalize_options no_repr (PList [PStr ''a'', PInt 1]))
   \<and> snd (snd (present demo_mssql no_repr False ''yolo'' (PStr ''NONE'')
                  (PList [PStr ''a'', PInt 1]) [] []))
        = [DbExists ''yolo'' [], DbCreate ''yolo'' (PStr ''NONE'') [PStr ''a'', PInt 1] []]"
  by (simp add: present_def)

lemma option_item_is_str: "list_all is_str (map (option_item R) d)"
  by (simp add: list_all_iff option_item_def)

lemma normalize_dict: "is_dict x \<Longrightarrow> normalize_options R x = map (option_item R) (dict_items x)"
  by (cases x) simp_all

lemma normalize_list_of_strings: "normalize_options R (PList (map PStr ss)) = map PStr ss"
  by (cases ss) simp_all

lemma normalize_list_of_dicts:
  assumes "list_all is_dict xs"
  shows "normalize_options R (PList xs)
           = concat (map (\<lambda>x. map (option_item R) (dict_items x)) xs)"
proof (cases xs)
  case Nil
  then show ?thesis by simp
next
  case (Cons x ys)
  have "is_dict x" using assms Cons by simp
  then have "normalize_options R (PList (x # ys)) = concat (map (normalize_options R) (x # ys))"
    by (cases x) simp_all
  then have "normalize_options R (PList xs) = concat (map (normalize_options R) xs)"
    using Cons by simp
  also have "map (normalize_options R) xs = map (\<lambda>x. map (option_item R) (dict_items x)) xs"
  proof (rule map_cong)
    fix y assume "y \<in> set xs"
    then have "is_dict y" using assms by (simp add: list_all_iff)
    then show "normalize_options R y = map (option_item R) (dict_items y)"
      by (rule normalize_dict)
  qed simp
  finally show ?thesis .
qed

lemma all_str_unchanged:
  assumes "list_all is_str xs"
  shows "normalize_options R (PList xs) = xs"
proof (cases xs)
  case Nil
  then show ?thesis by simp
next
  case (Cons x ys)
  then have "is_str x" using assms by simp
  then show ?thesis using Cons by (cases x) simp_all
qed

lemma normalize_documented_is_str:
  assumes "options_as_documented v"
  shows "list_all is_str (normalize_options R v)"
proof (cases v)
  case (PList xs)
  then consider "list_all is_str xs" | "list_all is_dict xs" using assms by auto
  then show ?thesis
  proof cases
    case 1
    then show ?thesis using PList all_str_unchanged by simp
  next
    case 2
    then show ?thesis
      using PList normalize_list_of_dicts [OF 2, of R]
      by (simp add: list_all_iff option_item_def)
  qed
qed (simp_all add: option_item_is_str)

text \<open>
  C10, amended. A dictionary gives its \<open>key=value\<close> strings; a list of strings is
  returned unchanged, and so is every list whose first element is a string; a list of
  dictionaries is flattened, and a list whose first element is a dictionary is the
  concatenation of what each element gives; a list with another first element, and every
  value that is neither a list nor a dictionary, gives the empty list. The result is a
  list of strings for the documented forms of the options and for every value that is not
  a list, and \<open>present\<close> calls \<open>mssql.db_create\<close> with exactly the normalised options.
\<close>

theorem normalize_options_by_first_element:
  "normalize_options R (PDict d) = map (option_item R) d
   \<and> normalize_options R (PODict d) = map (option_item R) d
   \<and> normalize_options R (PList (map PStr ss)) = map PStr ss
   \<and> normalize_options R (PList (PStr s # ys)) = PStr s # ys
   \<and> (list_all is_dict xs \<longrightarrow>
        normalize_options R (PList xs) = concat (map (\<lambda>x. map (option_item R) (dict_items x)) xs))
   \<and> (is_dict x \<longrightarrow>
        normalize_options R (PList (x # zs)) = concat (map (normalize_options R) (x # zs)))
   \<and> (\<not> is_str x \<and> \<not> is_dict x \<longrightarrow> normalize_options R (PList (x # zs)) = [])
   \<and> normalize_options R PNone = [] \<and> normalize_options R (PBool b) = []
   \<and> normalize_options R (PInt i) = [] \<and> normalize_options R (PStr s) = []
   \<and> (options_as_documented v \<longrightarrow> list_all is_str (normalize_options R v))
   \<and> (\<forall>c \<in> set (snd (snd (present H R test name containment options kwargs w))).
         is_apply c \<longrightarrow> c = DbCreate name containment (normalize_options R options) kwargs)"
proof -
  have a: "is_dict x \<longrightarrow>
        normalize_options R (PList (x # zs)) = concat (map (normalize_options R) (x # zs))"
    by (cases x) simp_all
  have b: "\<not> is_str x \<and> \<not> is_dict x \<longrightarrow> normalize_options R (PList (x # zs)) = []"
    by (cases x) simp_all
  have c: "\<forall>c \<in> set (snd (snd (present H R test name containment options kwargs w))).
         is_apply c \<longrightarrow> c = DbCreate name containment (normalize_options R options) kwargs"
    by (simp add: present_def Let_def case_prod_beta)
  show ?thesis
    using a b c normalize_list_of_strings normalize_list_of_dicts normalize_documented_is_str
    by simp
qed

theorem normalize_options_by_first_element_witness:
  "list_all is_dict [PDict [(KStr ''FILESTREAM'', PInt 2)], PODict [(KStr ''CATALOG_COLLATION'', PStr ''x'')]]
   \<and> normalize_options no_repr
        (PList [PDict [(KStr ''FILESTREAM'', PInt 2)], PODict [(KStr ''CATALOG_COLLATION'', PStr ''x'')]])
      = [PStr ''FILESTREAM=2'', PStr ''CATALOG_COLLATION=x'']
   \<and> is_dict (PDict [(KStr ''a'', PStr ''b'')])
   \<and> normalize_options no_repr (PList [PDict [(KStr ''a'', PStr ''b'')], PStr ''c'', PList [PStr ''d'', PInt 1]])
      = [PStr ''a=b'', PStr ''d'', PInt 1]
   \<and> \<not> is_str (PInt 1) \<and> \<not> is_dict (PInt 1)
   \<and> normalize_options no_repr (PList [PInt 1, PStr ''a'']) = []
   \<and> options_as_documented (PList [PStr ''a'', PStr ''b''])
   \<and> list_all is_str (normalize_options no_repr (PList [PStr ''a'', PStr ''b'']))
   \<and> snd (snd (present demo_mssql no_repr False ''yolo'' (PStr ''NONE'')
           (PDict [(KStr ''FILESTREAM'', PInt 2)]) [] []))
      = [DbExists ''yolo'' [], DbCreate ''yolo'' (PStr ''NONE'') [PStr ''FILESTREAM=2''] []]"
  using normalize_options_by_first_element [where R = no_repr
    and xs = "[PDict [(KStr ''FILESTREAM'', PInt 2)], PODict [(KStr ''CATALOG_COLLATION'', PStr ''x'')]]"
    and x = "PDict [(KStr ''a'', PStr ''b'')]" and zs = "[PStr ''c'', PList [PStr ''d'', PInt 1]]"
    and v = "PList [PStr ''a'', PStr ''b'']"
    and H = demo_mssql and test = False and name = "''yolo''" and containment = "PStr ''NONE''"
    and options = "PDict [(KStr ''FILESTREAM'', PInt 2)]" and kwargs = "[]" and w = "[]"]
    normalize_options_by_first_element [where R = no_repr and x = "PInt 1" and zs = "[PStr ''a'']"]
  by (simp add: present_def option_item_def show_int_def show_nat.simps digit_char_def)


end
